theory Spec2Isabelle
  imports Main "HOL-Library.Sublist" "HOL-Library.AList"
begin

section \<open>Python values and text\<close>

text \<open>
  The result records of the scraper are Python dictionaries with string keys and values
  of several types. A dictionary is an association list in insertion order;
  \<open>AList.update\<close> is the assignment \<^verbatim>\<open>d[k] = v\<close> (an existing key keeps its place and
  takes the new value, a new key goes last) and \<open>py_get\<close> is \<^verbatim>\<open>d.get(k)\<close>.

  Text is an Isabelle \<open>string\<close>. The model of \<^verbatim>\<open>str.lower\<close>, \<^verbatim>\<open>str.upper\<close> and
  \<^verbatim>\<open>str.strip\<close> is exact on ASCII text; other characters are left as they are.
\<close>

datatype pyval =
    PNone
  | PBool bool
  | PInt int
  | PStr string
  | PList "pyval list"
  | PDict "(string \<times> pyval) list"

type_synonym pydict = "(string \<times> pyval) list"

fun truthy :: "pyval \<Rightarrow> bool" where
  "truthy PNone = False"
| "truthy (PBool b) = b"
| "truthy (PInt i) = (i \<noteq> 0)"
| "truthy (PStr s) = (s \<noteq> [])"
| "truthy (PList xs) = (xs \<noteq> [])"
| "truthy (PDict d) = (d \<noteq> [])"

definition py_get :: "('k \<times> 'v) list \<Rightarrow> 'k \<Rightarrow> 'v option" where
  "py_get d k = map_of d k"

text \<open>The truth value of \<^verbatim>\<open>d.get(k)\<close>: a missing key gives \<^verbatim>\<open>None\<close>, which is false.\<close>

definition get_truthy :: "pydict \<Rightarrow> string \<Rightarrow> bool" where
  "get_truthy d k = (case py_get d k of None \<Rightarrow> False | Some v \<Rightarrow> truthy v)"

text \<open>The truth value of an optional string: \<^verbatim>\<open>None\<close> and the empty string are false.\<close>

fun str_truthy :: "string option \<Rightarrow> bool" where
  "str_truthy None = False"
| "str_truthy (Some s) = (s \<noteq> [])"

definition lower_char :: "char \<Rightarrow> char" where
  "lower_char c =
     (let n = (of_char c :: nat) in if 65 \<le> n \<and> n \<le> 90 then char_of (n + 32) else c)"

definition upper_char :: "char \<Rightarrow> char" where
  "upper_char c =
     (let n = (of_char c :: nat) in if 97 \<le> n \<and> n \<le> 122 then char_of (n - 32) else c)"

definition lower :: "string \<Rightarrow> string" where
  "lower s = map lower_char s"

definition upper :: "string \<Rightarrow> string" where
  "upper s = map upper_char s"

text \<open>\<^verbatim>\<open>str.isspace\<close> on one ASCII character: tab to carriage return, the four
  separators 28 to 31, and the space.\<close>

definition isspace :: "char \<Rightarrow> bool" where
  "isspace c = (let n = (of_char c :: nat) in (9 \<le> n \<and> n \<le> 13) \<or> (28 \<le> n \<and> n \<le> 32))"

definition strip :: "string \<Rightarrow> string" where
  "strip s = rev (dropWhile isspace (rev (dropWhile isspace s)))"

text \<open>\<^verbatim>\<open>needle in hay\<close> on strings: \<open>needle\<close> is a contiguous part of \<open>hay\<close>.\<close>

definition py_in :: "string \<Rightarrow> string \<Rightarrow> bool" where
  "py_in needle hay = sublist needle hay"

text \<open>\<^verbatim>\<open>str(n)\<close> for an integer, in decimal.\<close>

function str_nat :: "nat \<Rightarrow> string" where
  "str_nat n =
     (if n < 10 then [char_of (48 + n)] else str_nat (n div 10) @ [char_of (48 + n mod 10)])"
  by pat_completeness auto
termination
  by (relation "measure id") auto

declare str_nat.simps [simp del]

definition str_int :: "int \<Rightarrow> string" where
  "str_int i = (if i < 0 then CHR ''-'' # str_nat (nat (- i)) else str_nat (nat i))"

section \<open>The document tree of BeautifulSoup\<close>

text \<open>
  A parsed page is a tree of tags and strings. A tag has a name, its attributes (a
  dictionary from attribute name to value) and its contents in document order. The
  \<^verbatim>\<open>BeautifulSoup\<close> object itself is the tag named \<^verbatim>\<open>[document]\<close> at the root.
\<close>

datatype node =
    NavigableString string
  | Tag string "(string \<times> string) list" "node list"

text \<open>\<^verbatim>\<open>tag.descendants\<close>: every node below the tag, in document order.\<close>

fun descendants :: "node \<Rightarrow> node list" where
  "descendants (NavigableString s) = []"
| "descendants (Tag n a cs) = concat (map (\<lambda>c. c # descendants c) cs)"

text \<open>\<^verbatim>\<open>tag.get(key)\<close> and \<^verbatim>\<open>tag.get(key, default)\<close> read an attribute.\<close>

fun tag_get :: "node \<Rightarrow> string \<Rightarrow> string option" where
  "tag_get (NavigableString s) k = None"
| "tag_get (Tag n a cs) k = py_get a k"

definition tag_get_default :: "node \<Rightarrow> string \<Rightarrow> string \<Rightarrow> string" where
  "tag_get_default t k d = (case tag_get t k of None \<Rightarrow> d | Some v \<Rightarrow> v)"

text \<open>The filters of \<^verbatim>\<open>find\<close> and \<^verbatim>\<open>find_all\<close>: a tag name out of a list, an
  attribute equal to a value, and an attribute accepted by a function (which is called
  with \<^verbatim>\<open>None\<close> when the attribute is missing).\<close>

fun named :: "string list \<Rightarrow> node \<Rightarrow> bool" where
  "named ns (NavigableString s) = False"
| "named ns (Tag n a cs) = (n \<in> set ns)"

definition attr_is :: "string \<Rightarrow> string \<Rightarrow> node \<Rightarrow> bool" where
  "attr_is k v t = (tag_get t k = Some v)"

definition attr_sat :: "string \<Rightarrow> (string option \<Rightarrow> bool) \<Rightarrow> node \<Rightarrow> bool" where
  "attr_sat k P t = P (tag_get t k)"

definition find_all :: "(node \<Rightarrow> bool) \<Rightarrow> node \<Rightarrow> node list" where
  "find_all P root = filter P (descendants root)"

definition find_first :: "(node \<Rightarrow> bool) \<Rightarrow> node \<Rightarrow> node option" where
  "find_first P root = (case find_all P root of [] \<Rightarrow> None | t # _ \<Rightarrow> Some t)"

text \<open>\<^verbatim>\<open>tag.string\<close>: the string of a tag whose only child is a string, or whose only
  child is a tag that has one; \<^verbatim>\<open>None\<close> when the tag has no child or several.\<close>

fun dot_string :: "node \<Rightarrow> string option" where
  "dot_string (NavigableString s) = Some s"
| "dot_string (Tag n a [c]) = dot_string c"
| "dot_string (Tag n a cs) = None"

text \<open>The strings below a node in document order; \<^verbatim>\<open>get_text()\<close> joins them, and
  \<^verbatim>\<open>get_text(strip=True)\<close> strips each one and leaves out those that become empty.\<close>

fun all_strings :: "node \<Rightarrow> string list" where
  "all_strings (NavigableString s) = [s]"
| "all_strings (Tag n a cs) = concat (map all_strings cs)"

definition get_text :: "node \<Rightarrow> string" where
  "get_text t = concat (all_strings t)"

definition get_text_strip :: "node \<Rightarrow> string" where
  "get_text_strip t = concat (filter (\<lambda>s. s \<noteq> []) (map strip (all_strings t)))"

text \<open>
  \<^verbatim>\<open>for script in soup(["script", "style"]): script.decompose()\<close> takes every tag of
  these names out of the tree, with everything below it.
\<close>

fun decompose_all :: "string list \<Rightarrow> node \<Rightarrow> node" where
  "decompose_all ns (NavigableString s) = NavigableString s"
| "decompose_all ns (Tag n a cs) =
     Tag n a (map (decompose_all ns) (filter (\<lambda>c. \<not> named ns c) cs))"

section \<open>The result records of the cause list and the listing\<close>

text \<open>
  Some status lines of the source begin with a symbol outside ASCII; they are written
  here with the bytes the source file holds for them.
\<close>

definition mark_connected :: string where
  "mark_connected = [CHR 0xC3, CHR 0xA2, CHR 0xC5, CHR 0x93, CHR 0xE2, CHR 0x80, CHR 0xA6]"

definition mark_captcha :: string where
  "mark_captcha =
     [CHR 0xC3, CHR 0xB0, CHR 0xC5, CHR 0xB8, CHR 0xE2, CHR 0x80, CHR 0x9D, CHR 0xE2, CHR 0x80, CHR 0x99]"

text \<open>\<^verbatim>\<open>download_cause_list(court_name, date)\<close>: a fixed record, built without any call.\<close>

definition download_cause_list :: "string \<Rightarrow> string \<Rightarrow> pydict" where
  "download_cause_list court_name date =
     [(''status'', PStr ''connected''),
      (''court'', PStr court_name),
      (''date'', PStr date),
      (''message'', PStr (mark_connected @ '' Connected to eCourts Services'')),
      (''real_data'', PBool True),
      (''new_scraper_response'', PBool True)]"

text \<open>
  The body of \<^verbatim>\<open>get_case_listing(search_params, target_date)\<close>, inside its
  \<^verbatim>\<open>try\<close>. With \<open>search_params\<close> a dictionary nothing in it raises.
\<close>

definition case_listing_body :: "pydict \<Rightarrow> string \<Rightarrow> pydict" where
  "case_listing_body search_params target_date =
     (if py_get search_params ''connection'' = Some (PStr ''success'')
          \<and> get_truthy search_params ''captcha_required''
      then
        [(''status'', PStr ''captcha_required''),
         (''message'', PStr ''eCourts search form found but requires captcha verification''),
         (''date'', PStr target_date),
         (''website_status'', PStr (mark_connected @ '' Connected to eCourts Services'')),
         (''captcha_status'', PStr (mark_captcha @ '' Captcha verification required'')),
         (''real_data'', PBool True),
         (''new_scraper_response'', PBool True),
         (''case_details'', PDict search_params)]
      else if py_get search_params ''connection'' = Some (PStr ''success'')
          \<and> get_truthy search_params ''website_accessible''
      then
        [(''status'', PStr ''connected''),
         (''message'', PStr ''Successfully connected to eCourts website''),
         (''date'', PStr target_date),
         (''website_status'', PStr (mark_connected @ '' Connected to eCourts'')),
         (''page_title'',
            (case py_get search_params ''page_title'' of
               None \<Rightarrow> PStr ''eCourts Services'' | Some v \<Rightarrow> v)),
         (''real_data'', PBool True),
         (''new_scraper_response'', PBool True),
         (''case_details'', PDict search_params)]
      else
        [(''status'', PStr ''connection_failed''),
         (''message'', PStr ''Failed to connect to eCourts''),
         (''date'', PStr target_date),
         (''real_data'', PBool True),
         (''new_scraper_response'', PBool True)])"

section \<open>Exceptions and the network\<close>

text \<open>
  An exception is a value carrying its message \<^verbatim>\<open>str(e)\<close>; a computation that may raise
  returns \<open>exn + 'a\<close>, with \<open>Inl\<close> the exception. \<open>try_except\<close> is a
  \<^verbatim>\<open>try: ... except Exception as e: return handler(e)\<close> around a body.
\<close>

datatype exn = Exn string

fun str_exn :: "exn \<Rightarrow> string" where
  "str_exn (Exn m) = m"

definition try_except :: "exn + 'a \<Rightarrow> (exn \<Rightarrow> 'a) \<Rightarrow> exn + 'a" where
  "try_except body handler = (case body of Inl e \<Rightarrow> Inr (handler e) | Inr r \<Rightarrow> Inr r)"

text \<open>
  A response of the portal: its status code, and what
  \<^verbatim>\<open>BeautifulSoup(response.content, 'html.parser')\<close> gives for its body (the tree, or
  the exception the parser raised).
\<close>

record response =
  status_code :: int
  soup_of :: "exn + node"

text \<open>
  Everything outside the program: the three requests of the session (each returns a
  response or raises); \<^verbatim>\<open>urllib.parse.urljoin\<close>, whose second argument is
  \<^verbatim>\<open>None\<close> when the attribute it is read from is missing; the clock, as the two
  dates \<^verbatim>\<open>format_date(datetime.now())\<close> and
  \<^verbatim>\<open>format_date(datetime.now() + timedelta(days=1))\<close> and the year
  \<^verbatim>\<open>datetime.now().year\<close>; and the file system, which takes a path, a format and the
  data to write and may raise.
\<close>

record world =
  session_get :: "string \<Rightarrow> exn + response"
  session_get_params :: "string \<Rightarrow> (string \<times> string) list \<Rightarrow> exn + response"
  session_post :: "string \<Rightarrow> (string \<times> string) list \<Rightarrow> exn + response"
  urljoin :: "string \<Rightarrow> string option \<Rightarrow> exn + string"
  today :: string
  tomorrow :: string
  current_year :: int
  write_file :: "string \<Rightarrow> string \<Rightarrow> pydict \<Rightarrow> exn + unit"

definition services_url :: string where
  "services_url = ''https://services.ecourts.gov.in''"

text \<open>The record every handler of the scraper returns for an exception.\<close>

definition error_record :: "exn \<Rightarrow> pydict" where
  "error_record e =
     [(''status'', PStr ''error''), (''message'', PStr (str_exn e)), (''new_scraper'', PBool True)]"

section \<open>Parsing the search results\<close>

definition error_words :: "string list" where
  "error_words = [''error'', ''invalid'', ''not found'', ''incorrect'']"

definition status_words :: "string list" where
  "status_words = [''listed'', ''pending'', ''disposed'', ''hearing'']"

definition case_keywords :: "string list" where
  "case_keywords = [''case'', ''court'', ''status'', ''date'', ''judge'']"

definition css_indicators :: "string list" where
  "css_indicators = [''{'', ''}'', ''padding:'', ''margin:'', ''border:'', ''color:'', ''font-'']"

text \<open>\<^verbatim>\<open>lambda text: text and any(word in text.lower() for word in words)\<close>, called
  with the \<^verbatim>\<open>.string\<close> of a tag.\<close>

fun text_has_word :: "string list \<Rightarrow> string option \<Rightarrow> bool" where
  "text_has_word ws None = False"
| "text_has_word ws (Some t) = (t \<noteq> [] \<and> list_ex (\<lambda>word. py_in word (lower t)) ws)"

text \<open>\<^verbatim>\<open>soup.find_all(['div', 'span', 'p', 'td'], text=...)\<close>: the tags of these names
  whose \<^verbatim>\<open>.string\<close> the function accepts.\<close>

definition word_elements :: "string list \<Rightarrow> node \<Rightarrow> node list" where
  "word_elements ws soup =
     find_all (\<lambda>t. named [''div'', ''span'', ''p'', ''td''] t \<and> text_has_word ws (dot_string t)) soup"

text \<open>\<^verbatim>\<open>any(css_indicator in text for css_indicator in [...])\<close>.\<close>

definition looks_like_css :: "string \<Rightarrow> bool" where
  "looks_like_css text = list_ex (\<lambda>css_indicator. py_in css_indicator text) css_indicators"

text \<open>The loop that keeps the stripped text of each element unless it looks like CSS.\<close>

definition clean_texts :: "node list \<Rightarrow> string list" where
  "clean_texts elements = filter (\<lambda>text. \<not> looks_like_css text) (map get_text_strip elements)"

text \<open>The body of the loop over the rows of a table, and the two loops around it.\<close>

definition scan_row :: "node \<Rightarrow> (string \<times> string) list \<Rightarrow> (string \<times> string) list" where
  "scan_row row case_info =
     (let cells = find_all (named [''td'', ''th'']) row in
      if length cells \<ge> 2 then
        (let key = lower (get_text_strip (cells ! 0));
             value = get_text_strip (cells ! 1)
         in if list_ex (\<lambda>keyword. py_in keyword key) case_keywords
            then AList.update key value case_info else case_info)
      else case_info)"

definition scan_table :: "node \<Rightarrow> (string \<times> string) list \<Rightarrow> (string \<times> string) list" where
  "scan_table table case_info = fold scan_row (find_all (named [''tr'']) table) case_info"

definition scan_tables :: "node \<Rightarrow> (string \<times> string) list" where
  "scan_tables soup = fold scan_table (find_all (named [''table'']) soup) []"

text \<open>
  \<^verbatim>\<open>_parse_search_results\<close> after the tree is built. \<open>classify\<close> is the part below
  the removal of script and style.
\<close>

definition classify :: "node \<Rightarrow> string \<Rightarrow> pydict" where
  "classify soup cnr =
     (let clean_error_msgs = clean_texts (word_elements error_words soup) in
      if clean_error_msgs \<noteq> [] then
        [(''status'', PStr ''search_failed''),
         (''message'', PStr (''Search failed: '' @ hd clean_error_msgs)),
         (''cnr'', PStr cnr),
         (''new_scraper'', PBool True)]
      else
        (let case_info = scan_tables soup;
             status_indicators = clean_texts (word_elements status_words soup)
         in if case_info \<noteq> [] \<or> status_indicators \<noteq> [] then
              [(''status'', PStr ''case_found''),
               (''message'', PStr ''Case information retrieved successfully''),
               (''cnr'', PStr cnr),
               (''case_details'', PDict (map (\<lambda>(k, v). (k, PStr v)) case_info)),
               (''status_indicators'', PList (map PStr (take 5 status_indicators))),
               (''real_case_data'', PBool True),
               (''new_scraper'', PBool True)]
            else
              (let page_text = lower (get_text soup) in
               if py_in ''case'' page_text \<or> py_in ''court'' page_text then
                 [(''status'', PStr ''no_case_data''),
                  (''message'', PStr ''Connected successfully but no case information found''),
                  (''cnr'', PStr cnr),
                  (''page_content_sample'', PStr (take 500 (get_text soup))),
                  (''new_scraper'', PBool True)]
               else
                 [(''status'', PStr ''unexpected_response''),
                  (''message'', PStr ''Received unexpected response from eCourts''),
                  (''cnr'', PStr cnr),
                  (''new_scraper'', PBool True)])))"

definition remove_scripts :: "node \<Rightarrow> node" where
  "remove_scripts soup = decompose_all [''script'', ''style''] soup"

text \<open>\<^verbatim>\<open>_parse_search_results(html_content, cnr)\<close>; its first argument here is what the
  parser makes of \<open>html_content\<close>.\<close>

definition parse_search_results :: "exn + node \<Rightarrow> string \<Rightarrow> exn + pydict" where
  "parse_search_results parsed cnr =
     try_except
       (case parsed of
          Inl e \<Rightarrow> Inl e
        | Inr soup \<Rightarrow> Inr (classify (remove_scripts soup) cnr))
       error_record"

section \<open>Submitting the search\<close>

text \<open>The field map of \<^verbatim>\<open>_submit_cnr_search\<close>: the two fields of the caller, then the
  loop over the hidden inputs of the form.\<close>

definition add_hidden :: "node \<Rightarrow> (string \<times> string) list \<Rightarrow> (string \<times> string) list" where
  "add_hidden hidden form_data =
     (let name = tag_get hidden ''name'';
          value = tag_get_default hidden ''value'' []
      in case name of
           None \<Rightarrow> form_data
         | Some n \<Rightarrow> if n \<noteq> [] then AList.update n value form_data else form_data)"

definition hidden_inputs :: "node \<Rightarrow> node list" where
  "hidden_inputs form = find_all (\<lambda>t. named [''input''] t \<and> attr_is ''type'' ''hidden'' t) form"

definition build_form_data :: "string \<Rightarrow> string \<Rightarrow> node \<Rightarrow> (string \<times> string) list" where
  "build_form_data cnr captcha_code form =
     fold add_hidden (hidden_inputs form) [(''cino'', cnr), (''fcaptcha_code'', captcha_code)]"

definition submit_cnr_search :: "world \<Rightarrow> string \<Rightarrow> string \<Rightarrow> node \<Rightarrow> node \<Rightarrow> exn + pydict" where
  "submit_cnr_search w cnr captcha_code form soup =
     try_except
       (let form_action = tag_get_default form ''action'' [];
            form_method = upper (tag_get_default form ''method'' ''POST'');
            form_data = build_form_data cnr captcha_code form
        in case urljoin w services_url (Some form_action) of
             Inl e \<Rightarrow> Inl e
           | Inr submit_url \<Rightarrow>
               (case (if form_method = ''POST'' then session_post w submit_url form_data
                      else session_get_params w submit_url form_data) of
                  Inl e \<Rightarrow> Inl e
                | Inr response \<Rightarrow>
                    if status_code response = 200
                    then parse_search_results (soup_of response) cnr
                    else Inr [(''status'', PStr ''error''),
                              (''message'', PStr (''Search submission failed: HTTP ''
                                                   @ str_int (status_code response))),
                              (''new_scraper'', PBool True)]))
       error_record"

section \<open>Searching by CNR and by case details\<close>

text \<open>\<^verbatim>\<open>lambda x: x and 'captcha' in x.lower()\<close>, on the value of an attribute.\<close>

fun has_captcha :: "string option \<Rightarrow> bool" where
  "has_captcha None = False"
| "has_captcha (Some x) = (x \<noteq> [] \<and> py_in ''captcha'' (lower x))"

definition captcha_required_record :: "string \<Rightarrow> string \<Rightarrow> pyval \<Rightarrow> pydict" where
  "captcha_required_record cnr date captcha_url =
     [(''status'', PStr ''captcha_required''),
      (''cnr'', PStr cnr),
      (''date'', PStr date),
      (''connection'', PStr ''success''),
      (''website_accessible'', PBool True),
      (''search_form_found'', PBool True),
      (''captcha_required'', PBool True),
      (''captcha_url'', captcha_url),
      (''message'', PStr ''CNR search form found - captcha required''),
      (''new_scraper'', PBool True)]"

definition form_not_found_record :: pydict where
  "form_not_found_record =
     [(''status'', PStr ''error''),
      (''message'', PStr ''CNR search form not found on services page''),
      (''new_scraper'', PBool True)]"

text \<open>The three lookups of the search form on the services page.\<close>

definition find_cnr_input :: "node \<Rightarrow> node option" where
  "find_cnr_input soup = find_first (\<lambda>t. named [''input''] t \<and> attr_is ''name'' ''cino'' t) soup"

definition find_captcha_input :: "node \<Rightarrow> node option" where
  "find_captcha_input soup =
     find_first (\<lambda>t. named [''input''] t \<and> attr_is ''name'' ''fcaptcha_code'' t) soup"

definition find_search_form :: "node \<Rightarrow> node option" where
  "find_search_form soup = find_first (named [''form'']) soup"

text \<open>The captcha image: by its \<^verbatim>\<open>alt\<close> first, by its \<^verbatim>\<open>src\<close> otherwise.\<close>

definition find_captcha_img :: "node \<Rightarrow> node option" where
  "find_captcha_img soup =
     (case find_first (\<lambda>t. named [''img''] t \<and> attr_sat ''alt'' has_captcha t) soup of
        Some img \<Rightarrow> Some img
      | None \<Rightarrow> find_first (\<lambda>t. named [''img''] t \<and> attr_sat ''src'' has_captcha t) soup)"

text \<open>\<^verbatim>\<open>captcha_url\<close>: \<^verbatim>\<open>None\<close> without an image, else the image's \<^verbatim>\<open>src\<close> joined to
  the address of the services page.\<close>

definition find_captcha_url :: "world \<Rightarrow> node \<Rightarrow> exn + pyval" where
  "find_captcha_url w soup =
     (case find_captcha_img soup of
        None \<Rightarrow> Inr PNone
      | Some captcha_img \<Rightarrow>
          (case urljoin w services_url (tag_get captcha_img ''src'') of
             Inl e \<Rightarrow> Inl e
           | Inr u \<Rightarrow> Inr (PStr u)))"

definition search_by_cnr :: "world \<Rightarrow> string \<Rightarrow> string \<Rightarrow> string option \<Rightarrow> exn + pydict" where
  "search_by_cnr w cnr date captcha_code =
     try_except
       (case session_get w services_url of
          Inl e \<Rightarrow> Inl e
        | Inr response \<Rightarrow>
            if status_code response = 200 then
              (case soup_of response of
                 Inl e \<Rightarrow> Inl e
               | Inr soup \<Rightarrow>
                   (case (find_cnr_input soup, find_captcha_input soup, find_search_form soup) of
                      (Some cnr_input, Some captcha_input, Some search_form) \<Rightarrow>
                        (case find_captcha_url w soup of
                           Inl e \<Rightarrow> Inl e
                         | Inr captcha_url \<Rightarrow>
                             (case captcha_code of
                                None \<Rightarrow> Inr (captcha_required_record cnr date captcha_url)
                              | Some code \<Rightarrow>
                                  if code \<noteq> []
                                  then submit_cnr_search w cnr code search_form soup
                                  else Inr (captcha_required_record cnr date captcha_url)))
                    | _ \<Rightarrow> Inr form_not_found_record))
            else
              Inr [(''status'', PStr ''error''),
                   (''message'', PStr (''Services website returned status code: ''
                                        @ str_int (status_code response))),
                   (''new_scraper'', PBool True)])
       error_record"

definition search_by_case_details ::
  "world \<Rightarrow> string \<Rightarrow> string \<Rightarrow> string \<Rightarrow> string \<Rightarrow> exn + pydict" where
  "search_by_case_details w case_type case_number case_year date =
     try_except
       (case session_get w services_url of
          Inl e \<Rightarrow> Inl e
        | Inr response \<Rightarrow>
            if status_code response = 200 then
              (case soup_of response of
                 Inl e \<Rightarrow> Inl e
               | Inr soup \<Rightarrow>
                   (let page_title =
                          (case find_first (named [''title'']) soup of
                             Some title \<Rightarrow> strip (get_text title)
                           | None \<Rightarrow> ''eCourts Services'')
                    in Inr [(''status'', PStr ''found''),
                            (''case_type'', PStr case_type),
                            (''case_number'', PStr case_number),
                            (''case_year'', PStr case_year),
                            (''date'', PStr date),
                            (''connection'', PStr ''success''),
                            (''website_accessible'', PBool True),
                            (''page_title'', PStr page_title),
                            (''new_scraper'', PBool True)]))
            else
              Inr [(''status'', PStr ''error''),
                   (''message'', PStr (''Website returned status code: ''
                                        @ str_int (status_code response))),
                   (''new_scraper'', PBool True)])
       error_record"

text \<open>\<^verbatim>\<open>get_case_listing\<close>: the body above under the handler of the source.\<close>

definition get_case_listing :: "pydict \<Rightarrow> string \<Rightarrow> exn + pydict" where
  "get_case_listing search_params target_date =
     try_except (Inr (case_listing_body search_params target_date))
       (\<lambda>e. [(''status'', PStr ''error''), (''message'', PStr (str_exn e)),
              (''real_data'', PBool True), (''new_scraper_response'', PBool True)])"

section \<open>Validation and saving\<close>

text \<open>\<^verbatim>\<open>validate_cnr(cnr)\<close>.\<close>

definition validate_cnr :: "string \<Rightarrow> bool" where
  "validate_cnr cnr =
     (if cnr \<noteq> [] \<and> upper cnr = ''DEMO123'' then True
      else if cnr = [] \<or> length cnr < 10 then False
      else True)"

text \<open>
  \<^verbatim>\<open>int(s)\<close> on a string, \<open>None\<close> for \<^verbatim>\<open>ValueError\<close>: white space around the
  number is dropped, one sign may lead, and the rest is decimal digits, where single
  underscores may stand between two digits.
\<close>

definition isdigit :: "char \<Rightarrow> bool" where
  "isdigit c = (let n = (of_char c :: nat) in 48 \<le> n \<and> n \<le> 57)"

fun digits_ok :: "string \<Rightarrow> bool" where
  "digits_ok [] = False"
| "digits_ok [c] = isdigit c"
| "digits_ok (c # d # r) =
     (isdigit c \<and> (if d = CHR ''_'' then digits_ok r else digits_ok (d # r)))"

definition digits_value :: "string \<Rightarrow> nat" where
  "digits_value body = foldl (\<lambda>acc c. 10 * acc + (of_char c - 48)) 0 (filter isdigit body)"

definition py_int :: "string \<Rightarrow> int option" where
  "py_int s =
     (let t = strip s;
          signed = (t \<noteq> [] \<and> (hd t = CHR ''-'' \<or> hd t = CHR ''+''));
          body = (if signed then tl t else t)
      in if digits_ok body
         then Some (if signed \<and> hd t = CHR ''-'' then - int (digits_value body)
                    else int (digits_value body))
         else None)"

text \<open>\<^verbatim>\<open>validate_case_details(case_type, case_number, case_year)\<close>; an argument that
  is missing is \<open>None\<close>, and the year of the clock is the first argument.\<close>

definition validate_case_details ::
  "int \<Rightarrow> string option \<Rightarrow> string option \<Rightarrow> string option \<Rightarrow> bool" where
  "validate_case_details now_year case_type case_number case_year =
     (if \<not> (str_truthy case_type \<and> str_truthy case_number \<and> str_truthy case_year) then False
      else (case case_year of
              None \<Rightarrow> False
            | Some y \<Rightarrow>
                (case py_int y of
                   None \<Rightarrow> False
                 | Some year \<Rightarrow> if year < 1950 \<or> year > now_year then False else True)))"

text \<open>\<^verbatim>\<open>save_results(data, filename, format_type)\<close>: the path it writes to and
  returns; the write itself is the file system's.\<close>

definition save_results :: "world \<Rightarrow> pydict \<Rightarrow> string \<Rightarrow> string \<Rightarrow> exn + string" where
  "save_results w data filename format_type =
     (let filepath = (if format_type = ''json'' then ''output/'' @ filename @ ''.json''
                      else ''output/'' @ filename @ ''.txt'')
      in case write_file w filepath format_type data of
           Inl e \<Rightarrow> Inl e
         | Inr u \<Rightarrow> Inr filepath)"

section \<open>The HTTP API\<close>

text \<open>The demo record of both front ends: its case details and status indicators.\<close>

definition demo_case_details :: "(string \<times> string) list" where
  "demo_case_details =
     [(''case_number'', ''DEMO/123/2024''),
      (''court_name'', ''Demo District Court''),
      (''case_type'', ''Civil Suit''),
      (''filing_date'', ''15-01-2024''),
      (''status'', ''Pending''),
      (''next_hearing'', ''25-10-2025''),
      (''judge'', ''Hon'' @ [CHR 0x27] @ ''ble Justice Demo''),
      (''petitioner'', ''Demo Petitioner''),
      (''respondent'', ''Demo Respondent'')]"

definition demo_status_indicators :: "string list" where
  "demo_status_indicators = [''Case is listed for hearing'', ''Documents filed'', ''Notice served'']"

definition str_dict :: "(string \<times> string) list \<Rightarrow> pyval" where
  "str_dict d = PDict (map (\<lambda>(k, v). (k, PStr v)) d)"

definition demo_result_api :: "string \<Rightarrow> pydict" where
  "demo_result_api cnr =
     [(''status'', PStr ''case_found''),
      (''message'', PStr ''Demo case information retrieved successfully''),
      (''cnr'', PStr cnr),
      (''case_details'', str_dict demo_case_details),
      (''status_indicators'', PList (map PStr demo_status_indicators)),
      (''real_case_data'', PBool True),
      (''demo_mode'', PBool True),
      (''new_scraper'', PBool True)]"

text \<open>The body of \<^verbatim>\<open>POST /search/cnr\<close>: the three fields of the JSON body, each a
  string or missing. A handler returns the JSON it sends and the HTTP status.\<close>

record cnr_request =
  req_cnr :: "string option"
  req_date :: "string option"
  req_captcha_code :: "string option"

type_synonym http_response = "pydict \<times> nat"

definition api_error :: "exn \<Rightarrow> http_response" where
  "api_error e = ([(''error'', PStr (str_exn e))], 500)"

definition status_is :: "pydict \<Rightarrow> string \<Rightarrow> bool" where
  "status_is result tag = (py_get result ''status'' = Some (PStr tag))"

definition api_search_by_cnr_body :: "world \<Rightarrow> cnr_request \<Rightarrow> exn + http_response" where
  "api_search_by_cnr_body w req =
     (let date_option = (case req_date req of None \<Rightarrow> ''today'' | Some d \<Rightarrow> d);
          captcha_code = req_captcha_code req
      in case req_cnr req of
           None \<Rightarrow> Inr ([(''error'', PStr ''CNR is required'')], 400)
         | Some cnr \<Rightarrow>
             if cnr = [] then Inr ([(''error'', PStr ''CNR is required'')], 400)
             else if \<not> validate_cnr cnr then Inr ([(''error'', PStr ''Invalid CNR format'')], 400)
             else
               (let target_date = (if date_option = ''tomorrow'' then tomorrow w else today w);
                    filename = ''case_result_'' @ cnr @ ''_'' @ target_date;
                    search_params = PDict [(''cnr'', PStr cnr), (''date'', PStr target_date)]
                in if upper cnr = ''DEMO123'' then
                     (case save_results w (demo_result_api cnr) filename ''json'' of
                        Inl e \<Rightarrow> Inl e
                      | Inr path \<Rightarrow>
                          Inr ([(''success'', PBool True),
                                (''data'', PDict (demo_result_api cnr)),
                                (''search_params'', search_params),
                                (''demo_data'', PBool True),
                                (''saved_to_file'', PStr (filename @ ''.json''))], 200))
                   else
                     (case search_by_cnr w cnr target_date captcha_code of
                        Inl e \<Rightarrow> Inl e
                      | Inr result \<Rightarrow>
                          if status_is result ''error'' then Inr (result, 500)
                          else if status_is result ''captcha_required'' then
                            Inr ([(''success'', PBool True),
                                  (''captcha_required'', PBool True),
                                  (''data'', PDict result),
                                  (''search_params'', search_params)], 200)
                          else if status_is result ''case_found'' \<or> status_is result ''no_case_data''
                                  \<or> status_is result ''search_failed'' then
                            (case save_results w result filename ''json'' of
                               Inl e \<Rightarrow> Inl e
                             | Inr path \<Rightarrow>
                                 Inr ([(''success'', PBool True),
                                       (''data'', PDict result),
                                       (''search_params'', search_params),
                                       (''real_case_data'', PBool True),
                                       (''saved_to_file'', PStr (filename @ ''.json''))], 200))
                          else
                            (case get_case_listing result target_date of
                               Inl e \<Rightarrow> Inl e
                             | Inr listing \<Rightarrow>
                                 (case save_results w listing filename ''json'' of
                                    Inl e \<Rightarrow> Inl e
                                  | Inr path \<Rightarrow>
                                      Inr ([(''success'', PBool True),
                                            (''data'', PDict listing),
                                            (''search_params'', search_params),
                                            (''real_ecourts_data'', PBool True),
                                            (''saved_to_file'', PStr (filename @ ''.json''))], 200))))))"

definition api_search_by_cnr :: "world \<Rightarrow> cnr_request \<Rightarrow> http_response" where
  "api_search_by_cnr w req =
     (case api_search_by_cnr_body w req of Inl e \<Rightarrow> api_error e | Inr r \<Rightarrow> r)"

text \<open>\<^verbatim>\<open>GET /causelist/<court_name>/<date>\<close>.\<close>

definition demo_features :: "string list" where
  "demo_features =
     [''Court selection available'', ''Date-specific cause lists'', ''PDF download capability'']"

definition demo_sample_cases :: "(string \<times> string \<times> string) list" where
  "demo_sample_cases =
     [(''001'', ''DEMO/001/2024 - Civil Suit'', ''Listed''),
      (''002'', ''DEMO/002/2024 - Criminal Case'', ''Pending''),
      (''003'', ''DEMO/003/2024 - Family Matter'', ''Hearing''),
      (''004'', ''DEMO/004/2024 - Property Dispute'', ''Listed''),
      (''005'', ''DEMO/005/2024 - Contract Dispute'', ''Final Arguments'')]"

definition demo_cause_list :: "string \<Rightarrow> pydict" where
  "demo_cause_list date =
     [(''status'', PStr ''connected''),
      (''court'', PStr ''Demo District Court''),
      (''date'', PStr date),
      (''message'', PStr ''Connected to eCourts Services''),
      (''cause_list_links_found'', PInt 5),
      (''website_accessible'', PBool True),
      (''note'', PStr ''Demo cause list with sample cases''),
      (''real_data'', PBool True),
      (''demo_mode'', PBool True),
      (''available_features'', PList (map PStr demo_features)),
      (''sample_cases'',
         PList (map (\<lambda>(serial, c, st).
                       PDict [(''serial'', PStr serial), (''case'', PStr c), (''status'', PStr st)])
                    demo_sample_cases))]"

definition replace_char :: "char \<Rightarrow> char \<Rightarrow> string \<Rightarrow> string" where
  "replace_char a b s = map (\<lambda>c. if c = a then b else c) s"

definition api_get_cause_list_body :: "world \<Rightarrow> string \<Rightarrow> string \<Rightarrow> exn + http_response" where
  "api_get_cause_list_body w court_name date =
     (if lower court_name = ''demo'' \<or> py_in ''demo'' (lower court_name) then
        (let filename = ''causelist_'' @ replace_char CHR '' '' CHR ''_'' court_name @ ''_'' @ date
         in case save_results w (demo_cause_list date) filename ''json'' of
              Inl e \<Rightarrow> Inl e
            | Inr path \<Rightarrow>
                Inr ([(''success'', PBool True),
                      (''data'', PDict (demo_cause_list date)),
                      (''saved_to_file'', PStr (filename @ ''.json''))], 200))
      else
        (let cause_list = download_cause_list court_name date
         in if status_is cause_list ''error'' then Inr (cause_list, 500)
            else Inr ([(''success'', PBool True), (''data'', PDict cause_list)], 200)))"

definition api_get_cause_list :: "world \<Rightarrow> string \<Rightarrow> string \<Rightarrow> http_response" where
  "api_get_cause_list w court_name date =
     (case api_get_cause_list_body w court_name date of Inl e \<Rightarrow> api_error e | Inr r \<Rightarrow> r)"

section \<open>The command line\<close>

text \<open>
  \<^verbatim>\<open>main\<close> of the command line: its options, and the answers the user gives when it
  prompts. What it does is the list of its events: a line it echoes (\<open>EchoVal p v\<close> is
  the line \<^verbatim>\<open>f"{p}{v}"\<close> for a value of the result), and a call of
  \<^verbatim>\<open>save_results\<close> that returned. A block of statements ends by falling through, by
  \<^verbatim>\<open>return\<close> or by an exception.
\<close>

record cli_args =
  arg_cnr :: "string option"
  arg_case_type :: "string option"
  arg_case_number :: "string option"
  arg_case_year :: "string option"
  arg_today :: bool
  arg_tomorrow :: bool
  arg_causelist :: bool
  arg_output_format :: string

record cli_prompts =
  answer_date :: string
  answer_method :: string
  answer_cnr :: string
  answer_case_type :: string
  answer_case_number :: string
  answer_case_year :: string

datatype event = Echo string | EchoVal string pyval | Saved pydict string string

datatype flow = Continue | Return | Raise exn

type_synonym block = "event list \<times> flow"

definition seq :: "block \<Rightarrow> block \<Rightarrow> block" where
  "seq a b = (case snd a of Continue \<Rightarrow> (fst a @ fst b, snd b) | _ \<Rightarrow> a)"

definition echo :: "string list \<Rightarrow> block" where
  "echo lines = (map Echo lines, Continue)"

definition nl :: "string \<Rightarrow> string" where
  "nl s = CHR 0x0A # s"

definition quoted :: "string \<Rightarrow> string" where
  "quoted s = [CHR 0x27] @ s @ [CHR 0x27]"

text \<open>\<^verbatim>\<open>save_results(...)\<close> followed by the line that names the file.\<close>

definition save_echo :: "world \<Rightarrow> pydict \<Rightarrow> string \<Rightarrow> string \<Rightarrow> string \<Rightarrow> block" where
  "save_echo w data filename output_format label =
     (case save_results w data filename output_format of
        Inl e \<Rightarrow> ([], Raise e)
      | Inr path \<Rightarrow>
          ([Saved data filename output_format,
            Echo (nl (label @ '' saved to: output/'' @ filename @ ''.'' @ output_format))],
           Continue))"

text \<open>\<^verbatim>\<open>str.title\<close> on ASCII text: a letter after a letter is lowered, any other
  letter is raised.\<close>

definition isalpha :: "char \<Rightarrow> bool" where
  "isalpha c = (let n = (of_char c :: nat) in (65 \<le> n \<and> n \<le> 90) \<or> (97 \<le> n \<and> n \<le> 122))"

fun title_from :: "bool \<Rightarrow> string \<Rightarrow> string" where
  "title_from after_letter [] = []"
| "title_from after_letter (c # cs) =
     (if isalpha c
      then (if after_letter then lower_char c else upper_char c) # title_from True cs
      else c # title_from False cs)"

definition title :: "string \<Rightarrow> string" where
  "title s = title_from False s"

definition demo_result_cli :: "string \<Rightarrow> pydict" where
  "demo_result_cli cnr =
     [(''status'', PStr ''case_found''),
      (''message'', PStr ''Demo case information retrieved successfully''),
      (''cnr'', PStr cnr),
      (''case_details'', str_dict demo_case_details),
      (''status_indicators'', PList (map PStr demo_status_indicators)),
      (''real_case_data'', PBool True),
      (''demo_mode'', PBool True)]"

definition main_demo :: "world \<Rightarrow> string \<Rightarrow> string \<Rightarrow> string \<Rightarrow> block" where
  "main_demo w cnr target_date output_format =
     seq (echo ([''Case Information Found!'',
                 ''CNR: '' @ cnr,
                 ''Message: Demo case information retrieved successfully'',
                 nl ''Case Details:'']
                @ map (\<lambda>(key, value).
                         ''  '' @ title (replace_char CHR ''_'' CHR '' '' key) @ '': '' @ value)
                      demo_case_details
                @ [nl ''Status Indicators:'']
                @ map (\<lambda>indicator. ''  - '' @ indicator) demo_status_indicators))
       (seq (save_echo w (demo_result_cli cnr) (''case_result_'' @ cnr @ ''_'' @ target_date)
               output_format ''Results'')
            ([], Return))"

text \<open>Reading a result: \<^verbatim>\<open>d[k]\<close> raises \<^verbatim>\<open>KeyError\<close> on a missing key,
  \<^verbatim>\<open>v.items()\<close> needs a dictionary, and a \<^verbatim>\<open>for\<close> loop needs something to iterate.\<close>

fun type_name :: "pyval \<Rightarrow> string" where
  "type_name PNone = ''NoneType''"
| "type_name (PBool b) = ''bool''"
| "type_name (PInt i) = ''int''"
| "type_name (PStr s) = ''str''"
| "type_name (PList xs) = ''list''"
| "type_name (PDict d) = ''dict''"

definition echo_item :: "string \<Rightarrow> pydict \<Rightarrow> string \<Rightarrow> block" where
  "echo_item label d k =
     (case py_get d k of
        None \<Rightarrow> ([], Raise (Exn (quoted k)))
      | Some v \<Rightarrow> ([EchoVal label v], Continue))"

fun echo_items :: "pyval \<Rightarrow> block" where
  "echo_items (PDict d) = (map (\<lambda>(key, value). EchoVal (''  '' @ key @ '': '') value) d, Continue)"
| "echo_items v = ([], Raise (Exn (quoted (type_name v) @ '' object has no attribute '' @ quoted ''items'')))"

fun echo_each :: "pyval \<Rightarrow> block" where
  "echo_each (PList xs) = (map (EchoVal ''  - '') xs, Continue)"
| "echo_each (PStr s) = (map (\<lambda>c. EchoVal ''  - '' (PStr [c])) s, Continue)"
| "echo_each (PDict d) = (map (\<lambda>(key, value). EchoVal ''  - '' (PStr key)) d, Continue)"
| "echo_each v = ([], Raise (Exn (quoted (type_name v) @ '' object is not iterable'')))"

definition get_or :: "pydict \<Rightarrow> string \<Rightarrow> pyval \<Rightarrow> pyval" where
  "get_or d k dflt = (case py_get d k of None \<Rightarrow> dflt | Some v \<Rightarrow> v)"

definition show_result :: "pydict \<Rightarrow> block" where
  "show_result result =
     (if status_is result ''case_found'' then
        seq (echo [''Case Information Found!''])
       (seq (echo_item ''CNR: '' result ''cnr'')
       (seq (echo_item ''Message: '' result ''message'')
       (seq (if get_truthy result ''case_details''
             then seq (echo [nl ''Case Details:'']) (echo_items (get_or result ''case_details'' PNone))
             else ([], Continue))
            (if get_truthy result ''status_indicators''
             then seq (echo [nl ''Status Indicators:''])
                      (echo_each (get_or result ''status_indicators'' PNone))
             else ([], Continue)))))
      else if status_is result ''no_case_data'' then
        seq (echo [''No Case Data Found''])
       (seq (echo_item ''CNR: '' result ''cnr'') (echo_item ''Message: '' result ''message''))
      else if status_is result ''search_failed'' then
        seq (echo [''Search Failed''])
       (seq (echo_item ''CNR: '' result ''cnr'') (echo_item ''Error: '' result ''message''))
      else ([], Continue))"

text \<open>The lines for a listing; the CNR branch also prints a status when the connection
  failed, the case branch does not.\<close>

definition show_listing :: "bool \<Rightarrow> pydict \<Rightarrow> block" where
  "show_listing failed_status listing =
     (if status_is listing ''connected'' then
        ([Echo ''eCourts Connection Successful'',
          EchoVal ''Status: '' (get_or listing ''website_status'' (PStr ''Connected'')),
          EchoVal ''Message: '' (get_or listing ''message'' PNone)]
         @ (if get_truthy listing ''page_title''
            then [EchoVal ''Page Title: '' (get_or listing ''page_title'' PNone)] else []),
         Continue)
      else
        ([Echo ''Connection Failed'']
         @ (if failed_status
            then [EchoVal ''Status: '' (get_or listing ''website_status'' (PStr ''Failed''))] else [])
         @ [EchoVal ''Message: '' (get_or listing ''message'' PNone)],
         Continue))"

definition main_cnr :: "world \<Rightarrow> string \<Rightarrow> string \<Rightarrow> string \<Rightarrow> block" where
  "main_cnr w cnr target_date output_format =
     (if \<not> validate_cnr cnr then ([Echo ''Error: Invalid CNR format''], Return)
      else if upper cnr = ''DEMO123'' then main_demo w cnr target_date output_format
      else
        (case search_by_cnr w cnr target_date None of
           Inl e \<Rightarrow> ([], Raise e)
         | Inr result \<Rightarrow>
             if status_is result ''captcha_required'' then
               ([Echo ''Captcha Required'',
                 Echo ''Status: Connected to eCourts Services'',
                 Echo ''Message: CNR search form found but requires captcha verification'',
                 Echo ''Note: Captcha solving is only available in web interface'',
                 Echo ''Please use the web interface at http://127.0.0.1:5000 for captcha-based searches''],
                Return)
             else if status_is result ''case_found'' \<or> status_is result ''no_case_data''
                     \<or> status_is result ''search_failed'' then
               seq (show_result result)
                   (save_echo w result (''case_result_'' @ cnr @ ''_'' @ target_date)
                      output_format ''Results'')
             else
               (case get_case_listing result target_date of
                  Inl e \<Rightarrow> ([], Raise e)
                | Inr listing \<Rightarrow>
                    seq (show_listing True listing)
                        (save_echo w listing (''case_result_'' @ cnr @ ''_'' @ target_date)
                           output_format ''Results''))))"

definition main_case ::
  "world \<Rightarrow> string option \<Rightarrow> string option \<Rightarrow> string option \<Rightarrow> string \<Rightarrow> string \<Rightarrow> block" where
  "main_case w case_type case_number case_year target_date output_format =
     (case (case_type, case_number, case_year) of
        (Some ct, Some cn, Some cy) \<Rightarrow>
          if \<not> validate_case_details (current_year w) case_type case_number case_year
          then ([Echo ''Error: Invalid case details''], Return)
          else
            (case search_by_case_details w ct cn cy target_date of
               Inl e \<Rightarrow> ([], Raise e)
             | Inr result \<Rightarrow>
                 (case get_case_listing result target_date of
                    Inl e \<Rightarrow> ([], Raise e)
                  | Inr listing \<Rightarrow>
                      seq (show_listing False listing)
                          (save_echo w listing
                             (''case_result_'' @ ct @ ''_'' @ cn @ ''_'' @ cy @ ''_'' @ target_date)
                             output_format ''Results'')))
      | _ \<Rightarrow> ([Echo ''Error: Invalid case details''], Return))"

definition main_causelist :: "world \<Rightarrow> string \<Rightarrow> string \<Rightarrow> block" where
  "main_causelist w target_date output_format =
     seq (echo ([nl ''Downloading Cause List...'',
                 ''eCourts Cause List Service'',
                 ''Status: Connected to eCourts Services'',
                 ''Court: Demo District Court'',
                 ''Date: '' @ target_date,
                 ''Note: Demo cause list with sample cases'',
                 nl ''Sample Cases:'']
                @ map (\<lambda>(serial, c, st). ''  '' @ serial @ '': '' @ c @ '' - '' @ st) demo_sample_cases
                @ [nl ''Available Features:'']
                @ map (\<lambda>feature. ''  - '' @ feature) demo_features))
         (save_echo w (demo_cause_list target_date) (''causelist_Demo_Court_'' @ target_date)
            output_format ''Cause list'')"

definition main :: "world \<Rightarrow> cli_args \<Rightarrow> cli_prompts \<Rightarrow> event list" where
  "main w args p =
     (let target_date =
            (if arg_today args then today w
             else if arg_tomorrow args then tomorrow w
             else if answer_date p = ''1'' then today w else tomorrow w);
          ask = (\<not> str_truthy (arg_cnr args)
                 \<and> \<not> (str_truthy (arg_case_type args) \<and> str_truthy (arg_case_number args)
                         \<and> str_truthy (arg_case_year args)));
          by_cnr = (ask \<and> answer_method p = ''1'');
          by_case = (ask \<and> answer_method p \<noteq> ''1'');
          cnr = (if by_cnr then Some (answer_cnr p) else arg_cnr args);
          case_type = (if by_case then Some (answer_case_type p) else arg_case_type args);
          case_number = (if by_case then Some (answer_case_number p) else arg_case_number args);
          case_year = (if by_case then Some (answer_case_year p) else arg_case_year args);
          search =
            (case cnr of
               None \<Rightarrow> main_case w case_type case_number case_year target_date (arg_output_format args)
             | Some c \<Rightarrow>
                 if c \<noteq> [] then main_cnr w c target_date (arg_output_format args)
                 else main_case w case_type case_number case_year target_date (arg_output_format args));
          body = seq search
                   (if arg_causelist args
                    then main_causelist w target_date (arg_output_format args)
                    else ([], Continue))
      in fst body @ (case snd body of Raise e \<Rightarrow> [Echo (''Error: '' @ str_exn e)] | _ \<Rightarrow> []))"

section \<open>Notions used in the statements\<close>

text \<open>The strings of a page that do not lie inside a script or style tag, read off the
  page as it was parsed.\<close>

fun visible_strings :: "node \<Rightarrow> string list" where
  "visible_strings (NavigableString s) = [s]"
| "visible_strings (Tag n a cs) =
     concat (map (\<lambda>c. if named [''script'', ''style''] c then [] else visible_strings c) cs)"

text \<open>A text the classifier may show: it holds no brace and none of the CSS patterns,
  and it is the stripped text of a node of the page after script and style are removed.\<close>

definition surfaced_ok :: "node \<Rightarrow> string \<Rightarrow> bool" where
  "surfaced_ok soup t \<longleftrightarrow>
     (\<forall>p \<in> set [''{'', ''}'', ''padding:'', ''margin:'', ''border:'', ''color:'', ''font-'']. \<not> py_in p t)
     \<and> (\<exists>e \<in> set (descendants (remove_scripts soup)). t = get_text_strip e)"









text \<open>A record whose \<^verbatim>\<open>status\<close> is one of the given tags, and a record that carries
  a message.\<close>

definition has_tag :: "string list \<Rightarrow> pydict \<Rightarrow> bool" where
  "has_tag tags r \<longleftrightarrow> (\<exists>tag \<in> set tags. py_get r ''status'' = Some (PStr tag))"

definition has_message :: "pydict \<Rightarrow> bool" where
  "has_message r \<longleftrightarrow> (\<exists>m. py_get r ''message'' = Some (PStr m))"

text \<open>The tags of \<^verbatim>\<open>_parse_search_results\<close> and of \<^verbatim>\<open>search_by_cnr\<close>.\<close>

definition parse_tags :: "string list" where
  "parse_tags = [''error'', ''search_failed'', ''case_found'', ''no_case_data'', ''unexpected_response'']"

definition cnr_tags :: "string list" where
  "cnr_tags = [''captcha_required'', ''error'', ''search_failed'', ''case_found'', ''no_case_data'',
               ''unexpected_response'']"

text \<open>The lines \<^verbatim>\<open>main\<close> echoes for the demo record.\<close>

definition demo_echo :: "string \<Rightarrow> event list" where
  "demo_echo cnr =
     map Echo ([''Case Information Found!'',
                 ''CNR: '' @ cnr,
                 ''Message: Demo case information retrieved successfully'',
                 nl ''Case Details:'',
                 ''  Case Number: DEMO/123/2024'',
                 ''  Court Name: Demo District Court'',
                 ''  Case Type: Civil Suit'',
                 ''  Filing Date: 15-01-2024'',
                 ''  Status: Pending'',
                 ''  Next Hearing: 25-10-2025'',
                 ''  Judge: Hon'' @ [CHR 0x27] @ ''ble Justice Demo'',
                 ''  Petitioner: Demo Petitioner'',
                 ''  Respondent: Demo Respondent'',
                 nl ''Status Indicators:'',
                 ''  - Case is listed for hearing'',
                 ''  - Documents filed'',
                 ''  - Notice served''])"

section \<open>Sample inputs\<close>

text \<open>A world without a network: every request raises; files can be written.\<close>

definition offline_world :: world where
  "offline_world =
     \<lparr>session_get = (\<lambda>url. Inl (Exn ''connection refused'')),
      session_get_params = (\<lambda>url params. Inl (Exn ''connection refused'')),
      session_post = (\<lambda>url data. Inl (Exn ''connection refused'')),
      urljoin = (\<lambda>base url. Inr (base @ (case url of None \<Rightarrow> [] | Some u \<Rightarrow> u))),
      today = ''04-11-2026'',
      tomorrow = ''05-11-2026'',
      current_year = 2026,
      write_file = (\<lambda>path format_type data. Inr ())\<rparr>"

text \<open>A record as \<^verbatim>\<open>search_by_case_details\<close> returns it for a page that loaded.\<close>

definition found_record :: pydict where
  "found_record =
     [(''status'', PStr ''found''),
      (''case_type'', PStr ''CRL''),
      (''case_number'', PStr ''12345''),
      (''case_year'', PStr ''2023''),
      (''date'', PStr ''04-11-2026''),
      (''connection'', PStr ''success''),
      (''website_accessible'', PBool True),
      (''page_title'', PStr ''eCourts''),
      (''new_scraper'', PBool True)]"

text \<open>Result pages.\<close>

definition row_pending :: node where
  "row_pending = Tag ''tr'' [] [Tag ''td'' [] [NavigableString ''Case Status''],
                                Tag ''td'' [] [NavigableString ''Pending'']]"




definition page_error_and_table :: node where
  "page_error_and_table =
     Tag ''[document]'' []
       [Tag ''style'' [] [NavigableString ''.error { color: red }''],
        Tag ''p'' [] [NavigableString ''Error: invalid CNR''],
        Tag ''table'' [] [row_pending]]"



definition page_with_css :: node where
  "page_with_css =
     Tag ''[document]'' []
       [Tag ''style'' [] [NavigableString ''.hearing { margin: 0 }''],
        Tag ''p'' [] [NavigableString ''invalid color: red''],
        Tag ''div'' [] [NavigableString ''pending { }''],
        Tag ''span'' [] [NavigableString '' Case is listed '']]"





definition page_with_form :: node where
  "page_with_form =
     Tag ''[document]'' []
       [Tag ''form'' [(''action'', ''/search'')]
          [Tag ''input'' [(''type'', ''text''), (''name'', ''cino'')] [],
           Tag ''img'' [(''alt'', ''Captcha Image''), (''src'', ''/captcha.png'')] [],
           Tag ''input'' [(''type'', ''text''), (''name'', ''fcaptcha_code'')] []]]"

definition serving :: "node \<Rightarrow> world" where
  "serving page =
     offline_world\<lparr>session_get := (\<lambda>url. Inr \<lparr>status_code = 200, soup_of = Inr page\<rparr>)\<rparr>"

definition garbled_world :: world where
  "garbled_world =
     offline_world\<lparr>session_get :=
       (\<lambda>url. Inr \<lparr>status_code = 200, soup_of = Inl (Exn ''parser rejected the markup'')\<rparr>)\<rparr>"

text \<open>A demo request to the API and to the command line.\<close>

definition demo_request :: cnr_request where
  "demo_request = \<lparr>req_cnr = Some ''DEMO123'', req_date = None, req_captcha_code = None\<rparr>"

definition demo_args :: cli_args where
  "demo_args =
     \<lparr>arg_cnr = Some ''DEMO123'', arg_case_type = None, arg_case_number = None,
      arg_case_year = None, arg_today = True, arg_tomorrow = False, arg_causelist = True,
      arg_output_format = ''json''\<rparr>"

definition no_answers :: cli_prompts where
  "no_answers =
     \<lparr>answer_date = ''1'', answer_method = ''1'', answer_cnr = [], answer_case_type = [],
      answer_case_number = [], answer_case_year = []\<rparr>"

section \<open>Properties\<close>

lemma py_in_refl: "py_in s s"
  by (simp add: py_in_def)

subsection \<open>The cause list\<close>

text \<open>
  C10. \<^verbatim>\<open>download_cause_list\<close> takes no world, so it makes no request; for every court
  and date its record has the tag \<^verbatim>\<open>connected\<close> and echoes the court and the date, and
  the tag is never \<^verbatim>\<open>error\<close>. So the API route, for a court that is not the demo
  court, answers with the success envelope around that record whatever the world is: its
  500 branch is never taken.
\<close>

theorem cause_list_always_connected:
  "py_get (download_cause_list court_name date) ''status'' = Some (PStr ''connected'')
   \<and> py_get (download_cause_list court_name date) ''court'' = Some (PStr court_name)
   \<and> py_get (download_cause_list court_name date) ''date'' = Some (PStr date)
   \<and> \<not> status_is (download_cause_list court_name date) ''error''
   \<and> (\<not> py_in ''demo'' (lower court_name) \<longrightarrow>
        api_get_cause_list w court_name date =
          ([(''success'', PBool True), (''data'', PDict (download_cause_list court_name date))], 200))"
proof -
  have lookups:
    "py_get (download_cause_list court_name date) ''status'' = Some (PStr ''connected'')"
    "py_get (download_cause_list court_name date) ''court'' = Some (PStr court_name)"
    "py_get (download_cause_list court_name date) ''date'' = Some (PStr date)"
    by (simp_all add: download_cause_list_def py_get_def)
  have no_error: "\<not> status_is (download_cause_list court_name date) ''error''"
    by (simp add: status_is_def lookups)
  have api: "api_get_cause_list w court_name date =
          ([(''success'', PBool True), (''data'', PDict (download_cause_list court_name date))], 200)"
    if "\<not> py_in ''demo'' (lower court_name)"
  proof -
    from that have "lower court_name \<noteq> ''demo''"
      using py_in_refl [of "''demo''"] by auto
    with that no_error show ?thesis
      by (simp add: api_get_cause_list_def api_get_cause_list_body_def)
  qed
  from lookups no_error api show ?thesis by blast
qed

theorem cause_list_always_connected_witness:
  "\<not> py_in ''demo'' (lower ''Saket'')
   \<and> py_get (download_cause_list ''Saket'' ''04-11-2026'') ''status'' = Some (PStr ''connected'')
   \<and> api_get_cause_list offline_world ''Saket'' ''04-11-2026'' =
          ([(''success'', PBool True),
            (''data'', PDict (download_cause_list ''Saket'' ''04-11-2026''))], 200)"
proof -
  have h: "\<not> py_in ''demo'' (lower ''Saket'')" by code_simp
  show ?thesis
    using h cause_list_always_connected [of "''Saket''" "''04-11-2026''" offline_world] by blast
qed

subsection \<open>The listing\<close>

text \<open>
  C5. \<^verbatim>\<open>get_case_listing\<close> takes no world, so it makes no request. On an outcome with
  \<^verbatim>\<open>connection\<close> equal to \<^verbatim>\<open>success\<close> and a true \<^verbatim>\<open>captcha_required\<close> it returns the
  tag \<^verbatim>\<open>captcha_required\<close>; on one with \<^verbatim>\<open>connection\<close> equal to \<^verbatim>\<open>success\<close>, no true
  \<^verbatim>\<open>captcha_required\<close> and a true \<^verbatim>\<open>website_accessible\<close> it returns the tag
  \<^verbatim>\<open>connected\<close>. Each result carries the target date and a status line
  (\<^verbatim>\<open>website_status\<close>); the keys of each are exactly the listed ones, so the first has no
  \<^verbatim>\<open>page_title\<close> and the second no \<^verbatim>\<open>captcha_status\<close>.
\<close>

theorem listing_selects_tag:
  "(py_get sp ''connection'' = Some (PStr ''success'') \<and> get_truthy sp ''captcha_required'' \<longrightarrow>
      (\<exists>r. get_case_listing sp d = Inr r
         \<and> py_get r ''status'' = Some (PStr ''captcha_required'')
         \<and> py_get r ''date'' = Some (PStr d)
         \<and> py_get r ''website_status'' = Some (PStr (mark_connected @ '' Connected to eCourts Services''))
         \<and> map fst r = [''status'', ''message'', ''date'', ''website_status'', ''captcha_status'',
                         ''real_data'', ''new_scraper_response'', ''case_details'']
         \<and> py_get r ''page_title'' = None))
   \<and> (py_get sp ''connection'' = Some (PStr ''success'') \<and> \<not> get_truthy sp ''captcha_required''
        \<and> get_truthy sp ''website_accessible'' \<longrightarrow>
      (\<exists>r. get_case_listing sp d = Inr r
         \<and> py_get r ''status'' = Some (PStr ''connected'')
         \<and> py_get r ''date'' = Some (PStr d)
         \<and> py_get r ''website_status'' = Some (PStr (mark_connected @ '' Connected to eCourts''))
         \<and> map fst r = [''status'', ''message'', ''date'', ''website_status'', ''page_title'',
                         ''real_data'', ''new_scraper_response'', ''case_details'']
         \<and> py_get r ''captcha_status'' = None))"
  by (simp add: get_case_listing_def try_except_def case_listing_body_def py_get_def)

theorem listing_selects_tag_witness:
  "(\<exists>r. get_case_listing (captcha_required_record ''DLCT010001232023'' ''04-11-2026'' PNone)
            ''04-11-2026'' = Inr r
       \<and> py_get r ''status'' = Some (PStr ''captcha_required'') \<and> py_get r ''page_title'' = None)
   \<and> (\<exists>r. get_case_listing found_record ''04-11-2026'' = Inr r
       \<and> py_get r ''status'' = Some (PStr ''connected'') \<and> py_get r ''captcha_status'' = None)"
proof -
  let ?c = "captcha_required_record ''DLCT010001232023'' ''04-11-2026'' PNone"
  have c1: "py_get ?c ''connection'' = Some (PStr ''success'') \<and> get_truthy ?c ''captcha_required''"
    by (simp add: captcha_required_record_def py_get_def get_truthy_def)
  have c2: "py_get found_record ''connection'' = Some (PStr ''success'')
            \<and> \<not> get_truthy found_record ''captcha_required''
            \<and> get_truthy found_record ''website_accessible''"
    by (simp add: found_record_def py_get_def get_truthy_def)
  from c1 listing_selects_tag [of ?c "''04-11-2026''"]
  have "\<exists>r. get_case_listing ?c ''04-11-2026'' = Inr r
       \<and> py_get r ''status'' = Some (PStr ''captcha_required'') \<and> py_get r ''page_title'' = None"
    by blast
  moreover from c2 listing_selects_tag [of found_record "''04-11-2026''"]
  have "\<exists>r. get_case_listing found_record ''04-11-2026'' = Inr r
       \<and> py_get r ''status'' = Some (PStr ''connected'') \<and> py_get r ''captcha_status'' = None"
    by blast
  ultimately show ?thesis by blast
qed

subsection \<open>Validation of case details\<close>



subsection \<open>The order of the classifier\<close>



subsection \<open>Script, style and CSS text\<close>

lemma named_decompose_all: "named ns (decompose_all ms t) = named ns t"
  by (cases t) simp_all

lemma descendants_decompose_all:
  "e \<in> set (descendants (decompose_all ns t)) \<Longrightarrow> \<not> named ns e"
proof (induction t arbitrary: e)
  case (NavigableString s)
  then show ?case by simp
next
  case (Tag n a cs)
  from Tag.prems obtain c where c: "c \<in> set cs" "\<not> named ns c"
    and e: "e = decompose_all ns c \<or> e \<in> set (descendants (decompose_all ns c))"
    by auto
  from e show ?case
  proof
    assume "e = decompose_all ns c"
    with c show ?thesis by (simp add: named_decompose_all)
  next
    assume "e \<in> set (descendants (decompose_all ns c))"
    with Tag.IH c show ?thesis by blast
  qed
qed

lemma all_strings_remove_scripts: "all_strings (remove_scripts t) = visible_strings t"
  unfolding remove_scripts_def
proof (induction t)
  case (NavigableString s)
  then show ?case by simp
next
  case (Tag n a cs)
  have "concat (map all_strings (map (decompose_all [''script'', ''style''])
            (filter (\<lambda>c. \<not> named [''script'', ''style''] c) cs)))
        = concat (map (\<lambda>c. if named [''script'', ''style''] c then [] else visible_strings c) cs)"
    using Tag.IH by (induction cs) auto
  then show ?case by simp
qed

lemma all_strings_descendant:
  "e \<in> set (descendants t) \<Longrightarrow> set (all_strings e) \<subseteq> set (all_strings t)"
proof (induction t arbitrary: e)
  case (NavigableString s)
  then show ?case by simp
next
  case (Tag n a cs)
  from Tag.prems obtain c where c: "c \<in> set cs"
    and e: "e = c \<or> e \<in> set (descendants c)"
    by auto
  from e have "set (all_strings e) \<subseteq> set (all_strings c)"
    using Tag.IH c by blast
  with c show ?case by auto
qed

lemma word_elements_subset: "set (word_elements ws t) \<subseteq> set (descendants t)"
  by (auto simp: word_elements_def find_all_def)

lemma clean_texts_elem:
  "t \<in> set (clean_texts es) \<Longrightarrow> \<not> looks_like_css t \<and> (\<exists>e \<in> set es. t = get_text_strip e)"
  by (auto simp: clean_texts_def)

lemma looks_like_css_iff:
  "looks_like_css t \<longleftrightarrow>
     (\<exists>p \<in> set [''{'', ''}'', ''padding:'', ''margin:'', ''border:'', ''color:'', ''font-'']. py_in p t)"
  by (simp add: looks_like_css_def css_indicators_def)

lemma clean_texts_surfaced:
  assumes "t \<in> set (clean_texts (word_elements ws (remove_scripts soup)))"
  shows "surfaced_ok soup t"
proof -
  from clean_texts_elem [OF assms] obtain e where
    css: "\<not> looks_like_css t" and e: "e \<in> set (word_elements ws (remove_scripts soup))"
    and t: "t = get_text_strip e"
    by blast
  from e word_elements_subset have "e \<in> set (descendants (remove_scripts soup))" by blast
  with css t show ?thesis
    unfolding surfaced_ok_def looks_like_css_iff by blast
qed

text \<open>
  C3. Once script and style are removed, no node of the page is a script or style tag,
  and every string below a remaining node is one of the strings of the page outside
  script and style. The message of a \<^verbatim>\<open>search_failed\<close> record is
  \<^verbatim>\<open>Search failed: \<close> followed by a text that holds no brace and none of the patterns
  \<^verbatim>\<open>padding:\<close>, \<^verbatim>\<open>margin:\<close>, \<^verbatim>\<open>border:\<close>, \<^verbatim>\<open>color:\<close>, \<^verbatim>\<open>font-\<close>, and that is the
  stripped text of a remaining node; so is every status indicator of a
  \<^verbatim>\<open>case_found\<close> record.
\<close>

theorem css_and_script_text_not_surfaced:
  assumes "parse_search_results (Inr soup) cnr = Inr r"
  shows "(\<forall>e \<in> set (descendants (remove_scripts soup)).
            \<not> named [''script'', ''style''] e \<and> set (all_strings e) \<subseteq> set (visible_strings soup))
       \<and> (status_is r ''search_failed'' \<longrightarrow>
            (\<exists>t. py_get r ''message'' = Some (PStr (''Search failed: '' @ t)) \<and> surfaced_ok soup t))
       \<and> (status_is r ''case_found'' \<longrightarrow>
            (\<exists>ts. py_get r ''status_indicators'' = Some (PList (map PStr ts))
                  \<and> (\<forall>t \<in> set ts. surfaced_ok soup t)))"
proof -
  let ?doc = "remove_scripts soup"
  let ?errs = "clean_texts (word_elements error_words ?doc)"
  let ?inds = "clean_texts (word_elements status_words ?doc)"
  from assms have r: "r = classify ?doc cnr"
    by (simp add: parse_search_results_def try_except_def)
  have tree: "\<forall>e \<in> set (descendants ?doc).
            \<not> named [''script'', ''style''] e \<and> set (all_strings e) \<subseteq> set (visible_strings soup)"
    using descendants_decompose_all [of _ "[''script'', ''style'']" soup]
      all_strings_descendant [of _ ?doc] all_strings_remove_scripts [of soup]
    by (auto simp: remove_scripts_def)
  have failed: "\<exists>t. py_get r ''message'' = Some (PStr (''Search failed: '' @ t)) \<and> surfaced_ok soup t"
    if "status_is r ''search_failed''"
  proof -
    from that r have ne: "?errs \<noteq> []"
      by (auto simp: classify_def Let_def status_is_def py_get_def split: if_splits)
    then have "hd ?errs \<in> set ?errs" by simp
    then have "surfaced_ok soup (hd ?errs)" by (rule clean_texts_surfaced)
    moreover from ne r have "py_get r ''message'' = Some (PStr (''Search failed: '' @ hd ?errs))"
      by (simp add: classify_def Let_def py_get_def)
    ultimately show ?thesis by blast
  qed
  have found: "\<exists>ts. py_get r ''status_indicators'' = Some (PList (map PStr ts))
                  \<and> (\<forall>t \<in> set ts. surfaced_ok soup t)"
    if "status_is r ''case_found''"
  proof -
    from that r have "py_get r ''status_indicators'' = Some (PList (map PStr (take 5 ?inds)))"
      by (auto simp: classify_def Let_def status_is_def py_get_def split: if_splits)
    moreover have "\<forall>t \<in> set (take 5 ?inds). surfaced_ok soup t"
      using clean_texts_surfaced [of _ status_words soup] by (blast dest: in_set_takeD)
    ultimately show ?thesis by blast
  qed
  from tree failed found show ?thesis by blast
qed

theorem css_and_script_text_not_surfaced_witness:
  "parse_search_results (Inr page_with_css) ''X'' = Inr (classify (remove_scripts page_with_css) ''X'')
   \<and> py_get (classify (remove_scripts page_with_css) ''X'') ''status_indicators''
       = Some (PList [PStr ''Case is listed''])
   \<and> surfaced_ok page_with_css ''Case is listed''
   \<and> parse_search_results (Inr page_error_and_table) ''X''
       = Inr (classify (remove_scripts page_error_and_table) ''X'')
   \<and> py_get (classify (remove_scripts page_error_and_table) ''X'') ''message''
       = Some (PStr ''Search failed: Error: invalid CNR'')
   \<and> surfaced_ok page_error_and_table ''Error: invalid CNR''"
proof -
  let ?r = "classify (remove_scripts page_with_css) ''X''"
  let ?q = "classify (remove_scripts page_error_and_table) ''X''"
  have p: "parse_search_results (Inr page_with_css) ''X'' = Inr ?r"
    by (simp add: parse_search_results_def try_except_def)
  have s: "status_is ?r ''case_found''" by code_simp
  have i: "py_get ?r ''status_indicators'' = Some (PList [PStr ''Case is listed''])" by code_simp
  from css_and_script_text_not_surfaced [OF p] s obtain ts where
    ts: "py_get ?r ''status_indicators'' = Some (PList (map PStr ts))"
    and ok: "\<forall>t \<in> set ts. surfaced_ok page_with_css t"
    by blast
  from ts i have "map PStr ts = [PStr ''Case is listed'']" by simp
  then have "ts = [''Case is listed'']" by auto
  with ok have ok1: "surfaced_ok page_with_css ''Case is listed''" by simp
  have p2: "parse_search_results (Inr page_error_and_table) ''X'' = Inr ?q"
    by (simp add: parse_search_results_def try_except_def)
  have s2: "status_is ?q ''search_failed''" by code_simp
  have m2: "py_get ?q ''message'' = Some (PStr ''Search failed: Error: invalid CNR'')" by code_simp
  from css_and_script_text_not_surfaced [OF p2] s2 obtain t where
    t: "py_get ?q ''message'' = Some (PStr (''Search failed: '' @ t))"
    and ok2: "surfaced_ok page_error_and_table t"
    by blast
  from t m2 have "t = ''Error: invalid CNR''" by simp
  with ok2 have "surfaced_ok page_error_and_table ''Error: invalid CNR''" by simp
  with p i ok1 p2 m2 show ?thesis by blast
qed

subsection \<open>Dictionaries filled by a loop\<close>





subsection \<open>The case fields of a found case\<close>







subsection \<open>The submitted field map\<close>










subsection \<open>Locating the search form\<close>




subsection \<open>Every operation returns a record\<close>

lemma has_tag_mono: "has_tag tags r \<Longrightarrow> set tags \<subseteq> set tags' \<Longrightarrow> has_tag tags' r"
  unfolding has_tag_def by blast

lemma classify_tagged:
  "has_tag [''search_failed'', ''case_found'', ''no_case_data'', ''unexpected_response'']
     (classify soup cnr) \<and> has_message (classify soup cnr)"
  by (simp add: has_tag_def has_message_def classify_def Let_def py_get_def)

lemma error_record_tagged:
  "has_tag [''error''] (error_record e) \<and> has_message (error_record e)
   \<and> py_get (error_record e) ''message'' = Some (PStr (str_exn e))"
  by (simp add: has_tag_def has_message_def error_record_def py_get_def)

lemma parse_search_results_tagged:
  "\<exists>r. parse_search_results parsed cnr = Inr r \<and> has_tag parse_tags r \<and> has_message r"
proof (cases parsed)
  case (Inl e)
  have "has_tag parse_tags (error_record e)"
    by (rule has_tag_mono [of "[''error'']"]) (simp_all add: error_record_tagged parse_tags_def)
  with Inl show ?thesis
    by (simp add: parse_search_results_def try_except_def error_record_tagged)
next
  case (Inr soup)
  have "has_tag parse_tags (classify (remove_scripts soup) cnr)"
    by (rule has_tag_mono [OF conjunct1 [OF classify_tagged]]) (simp add: parse_tags_def)
  with Inr show ?thesis
    by (simp add: parse_search_results_def try_except_def classify_tagged)
qed

lemma submit_cnr_search_tagged:
  "\<exists>r. submit_cnr_search w cnr code form soup = Inr r \<and> has_tag parse_tags r \<and> has_message r"
proof -
  let ?u = "urljoin w services_url (Some (tag_get_default form ''action'' []))"
  let ?fd = "build_form_data cnr code form"
  have err: "has_tag parse_tags (error_record e) \<and> has_message (error_record e)" for e
    using has_tag_mono [of "[''error'']" "error_record e" parse_tags]
    by (simp add: error_record_tagged parse_tags_def)
  show ?thesis
  proof (cases ?u)
    case (Inl e)
    then show ?thesis
      by (simp add: submit_cnr_search_def try_except_def Let_def err)
  next
    case u: (Inr submit_url)
    let ?resp = "if upper (tag_get_default form ''method'' ''POST'') = ''POST''
                 then session_post w submit_url ?fd else session_get_params w submit_url ?fd"
    show ?thesis
    proof (cases ?resp)
      case (Inl e)
      then show ?thesis
        using u by (simp add: submit_cnr_search_def try_except_def Let_def err)
    next
      case resp: (Inr response)
      show ?thesis
      proof (cases "status_code response = 200")
        case True
        from parse_search_results_tagged [of "soup_of response" cnr] obtain r where
          r: "parse_search_results (soup_of response) cnr = Inr r" "has_tag parse_tags r"
          "has_message r"
          by blast
        from True u resp r(1) have "submit_cnr_search w cnr code form soup = Inr r"
          by (simp add: submit_cnr_search_def try_except_def Let_def)
        with r show ?thesis by blast
      next
        case False
        with u resp show ?thesis
          by (simp add: submit_cnr_search_def try_except_def Let_def py_get_def has_tag_def
              has_message_def parse_tags_def)
      qed
    qed
  qed
qed

lemma try_except_cases:
  assumes "\<And>e. P (h e)" and "\<And>r. body = Inr r \<Longrightarrow> P r"
  shows "\<exists>r. try_except body h = Inr r \<and> P r"
  using assms by (cases body) (simp_all add: try_except_def)

lemma submit_cnr_search_result:
  assumes "submit_cnr_search w cnr code form soup = Inr r"
  shows "has_tag cnr_tags r \<and> has_message r"
proof -
  from submit_cnr_search_tagged [of w cnr code form soup] assms
  have t: "has_tag parse_tags r" and m: "has_message r" by auto
  from t have "has_tag cnr_tags r"
    by (rule has_tag_mono) (simp add: parse_tags_def cnr_tags_def)
  with m show ?thesis by simp
qed

lemma search_by_cnr_tagged:
  "\<exists>r. search_by_cnr w cnr date captcha_code = Inr r \<and> has_tag cnr_tags r \<and> has_message r"
  unfolding search_by_cnr_def
proof (rule try_except_cases)
  fix e
  show "has_tag cnr_tags (error_record e) \<and> has_message (error_record e)"
    by (simp add: has_tag_def has_message_def error_record_def py_get_def cnr_tags_def)
next
  fix r
  have cap: "has_tag cnr_tags (captcha_required_record cnr date u)
             \<and> has_message (captcha_required_record cnr date u)" for u
    by (simp add: has_tag_def has_message_def captcha_required_record_def py_get_def cnr_tags_def)
  have nf: "has_tag cnr_tags form_not_found_record \<and> has_message form_not_found_record"
    by (simp add: has_tag_def has_message_def form_not_found_record_def py_get_def cnr_tags_def)
  have code: "has_tag cnr_tags [(''status'', PStr ''error''), (''message'', PStr m), (''new_scraper'', PBool True)]
      \<and> has_message [(''status'', PStr ''error''), (''message'', PStr m), (''new_scraper'', PBool True)]"
    for m
    by (simp add: has_tag_def has_message_def py_get_def cnr_tags_def)
  assume "(case session_get w services_url of
          Inl e \<Rightarrow> Inl e
        | Inr response \<Rightarrow>
            if status_code response = 200 then
              (case soup_of response of
                 Inl e \<Rightarrow> Inl e
               | Inr soup \<Rightarrow>
                   (case (find_cnr_input soup, find_captcha_input soup, find_search_form soup) of
                      (Some cnr_input, Some captcha_input, Some search_form) \<Rightarrow>
                        (case find_captcha_url w soup of
                           Inl e \<Rightarrow> Inl e
                         | Inr captcha_url \<Rightarrow>
                             (case captcha_code of
                                None \<Rightarrow> Inr (captcha_required_record cnr date captcha_url)
                              | Some code \<Rightarrow>
                                  if code \<noteq> []
                                  then submit_cnr_search w cnr code search_form soup
                                  else Inr (captcha_required_record cnr date captcha_url)))
                    | _ \<Rightarrow> Inr form_not_found_record))
            else
              Inr [(''status'', PStr ''error''),
                   (''message'', PStr (''Services website returned status code: ''
                                        @ str_int (status_code response))),
                   (''new_scraper'', PBool True)]) = Inr r"
  then show "has_tag cnr_tags r \<and> has_message r"
    using cap nf code
    by (auto split: sum.splits option.splits if_splits dest: submit_cnr_search_result)
qed

lemma search_by_case_details_tagged:
  "\<exists>r. search_by_case_details w ct cn cy date = Inr r \<and> has_tag [''found'', ''error''] r"
  unfolding search_by_case_details_def
proof (rule try_except_cases)
  fix e
  show "has_tag [''found'', ''error''] (error_record e)"
    by (simp add: has_tag_def error_record_def py_get_def)
next
  fix r
  assume "(case session_get w services_url of
          Inl e \<Rightarrow> Inl e
        | Inr response \<Rightarrow>
            if status_code response = 200 then
              (case soup_of response of
                 Inl e \<Rightarrow> Inl e
               | Inr soup \<Rightarrow>
                   (let page_title =
                          (case find_first (named [''title'']) soup of
                             Some t \<Rightarrow> strip (get_text t)
                           | None \<Rightarrow> ''eCourts Services'')
                    in Inr [(''status'', PStr ''found''),
                            (''case_type'', PStr ct),
                            (''case_number'', PStr cn),
                            (''case_year'', PStr cy),
                            (''date'', PStr date),
                            (''connection'', PStr ''success''),
                            (''website_accessible'', PBool True),
                            (''page_title'', PStr page_title),
                            (''new_scraper'', PBool True)]))
            else
              Inr [(''status'', PStr ''error''),
                   (''message'', PStr (''Website returned status code: ''
                                        @ str_int (status_code response))),
                   (''new_scraper'', PBool True)]) = Inr r"
  then show "has_tag [''found'', ''error''] r"
    by (auto split: sum.splits if_splits simp: has_tag_def py_get_def Let_def)
qed

lemma get_case_listing_tagged:
  "\<exists>r. get_case_listing sp date = Inr r
      \<and> has_tag [''captcha_required'', ''connected'', ''connection_failed''] r \<and> has_message r"
  by (simp add: get_case_listing_def try_except_def case_listing_body_def has_tag_def
      has_message_def py_get_def)

lemma network_failure_caught:
  assumes "session_get w services_url = Inl e"
  shows "search_by_cnr w cnr date captcha_code = Inr (error_record e)"
    and "search_by_case_details w ct cn cy date = Inr (error_record e)"
  using assms by (simp_all add: search_by_cnr_def search_by_case_details_def try_except_def)

lemma parse_failure_caught:
  assumes "session_get w services_url = Inr response" and "status_code response = 200"
    and "soup_of response = Inl e"
  shows "search_by_cnr w cnr date captcha_code = Inr (error_record e)"
    and "search_by_case_details w ct cn cy date = Inr (error_record e)"
  using assms by (simp_all add: search_by_cnr_def search_by_case_details_def try_except_def)

lemma submit_failure_caught:
  assumes "urljoin w services_url (Some (tag_get_default form ''action'' [])) = Inr u"
    and "(if upper (tag_get_default form ''method'' ''POST'') = ''POST''
          then session_post w u (build_form_data cnr code form)
          else session_get_params w u (build_form_data cnr code form)) = Inl e"
  shows "submit_cnr_search w cnr code form soup = Inr (error_record e)"
  using assms by (simp add: submit_cnr_search_def try_except_def Let_def)

text \<open>
  C6. Whatever the world does, each of \<^verbatim>\<open>search_by_cnr\<close>,
  \<^verbatim>\<open>search_by_case_details\<close> and \<^verbatim>\<open>get_case_listing\<close> returns a record and raises
  nothing, and the record carries a tag of the operation's fixed list. An exception of
  the request for the services page, of the parser on that page, of the submission, or of
  the parser on the result page becomes the error record: tag \<^verbatim>\<open>error\<close>, with the
  exception's text as the message.
\<close>

theorem core_operations_never_raise:
  "(\<exists>r. search_by_cnr w cnr date captcha_code = Inr r \<and> has_tag cnr_tags r \<and> has_message r)
   \<and> (\<exists>r. search_by_case_details w case_type case_number case_year date = Inr r
         \<and> has_tag [''found'', ''error''] r)
   \<and> (\<exists>r. get_case_listing search_params date = Inr r
         \<and> has_tag [''captcha_required'', ''connected'', ''connection_failed''] r \<and> has_message r)
   \<and> (\<forall>e. session_get w services_url = Inl e \<longrightarrow>
         search_by_cnr w cnr date captcha_code = Inr (error_record e)
         \<and> search_by_case_details w case_type case_number case_year date = Inr (error_record e))
   \<and> (\<forall>response e. session_get w services_url = Inr response \<and> status_code response = 200
                    \<and> soup_of response = Inl e \<longrightarrow>
         search_by_cnr w cnr date captcha_code = Inr (error_record e)
         \<and> search_by_case_details w case_type case_number case_year date = Inr (error_record e))
   \<and> (\<forall>form code soup u e.
         urljoin w services_url (Some (tag_get_default form ''action'' [])) = Inr u
         \<and> (if upper (tag_get_default form ''method'' ''POST'') = ''POST''
              then session_post w u (build_form_data cnr code form)
              else session_get_params w u (build_form_data cnr code form)) = Inl e \<longrightarrow>
         submit_cnr_search w cnr code form soup = Inr (error_record e))
   \<and> (\<forall>e. parse_search_results (Inl e) cnr = Inr (error_record e)
         \<and> py_get (error_record e) ''status'' = Some (PStr ''error'')
         \<and> py_get (error_record e) ''message'' = Some (PStr (str_exn e)))"
proof -
  have parse: "parse_search_results (Inl e) cnr = Inr (error_record e)
         \<and> py_get (error_record e) ''status'' = Some (PStr ''error'')
         \<and> py_get (error_record e) ''message'' = Some (PStr (str_exn e))" for e
    by (simp add: parse_search_results_def try_except_def error_record_def py_get_def)
  have net: "\<forall>e. session_get w services_url = Inl e \<longrightarrow>
         search_by_cnr w cnr date captcha_code = Inr (error_record e)
         \<and> search_by_case_details w case_type case_number case_year date = Inr (error_record e)"
    using network_failure_caught by blast
  have prs: "\<forall>response e. session_get w services_url = Inr response \<and> status_code response = 200
                    \<and> soup_of response = Inl e \<longrightarrow>
         search_by_cnr w cnr date captcha_code = Inr (error_record e)
         \<and> search_by_case_details w case_type case_number case_year date = Inr (error_record e)"
    using parse_failure_caught by blast
  have sub: "\<forall>form code soup u e.
         urljoin w services_url (Some (tag_get_default form ''action'' [])) = Inr u
         \<and> (if upper (tag_get_default form ''method'' ''POST'') = ''POST''
              then session_post w u (build_form_data cnr code form)
              else session_get_params w u (build_form_data cnr code form)) = Inl e \<longrightarrow>
         submit_cnr_search w cnr code form soup = Inr (error_record e)"
    by (intro allI impI, elim conjE) (rule submit_failure_caught)
  show ?thesis
    using search_by_cnr_tagged [of w cnr date captcha_code]
      search_by_case_details_tagged [of w case_type case_number case_year date]
      get_case_listing_tagged [of search_params date] net prs sub parse
    by (intro conjI allI) blast+
qed

theorem core_operations_never_raise_witness:
  "session_get offline_world services_url = Inl (Exn ''connection refused'')
   \<and> search_by_cnr offline_world ''DLCT010001232023'' ''04-11-2026'' None
       = Inr (error_record (Exn ''connection refused''))
   \<and> search_by_case_details offline_world ''CRL'' ''12345'' ''2023'' ''04-11-2026''
       = Inr (error_record (Exn ''connection refused''))
   \<and> search_by_cnr garbled_world ''DLCT010001232023'' ''04-11-2026'' None
       = Inr (error_record (Exn ''parser rejected the markup''))
   \<and> py_get (error_record (Exn ''connection refused'')) ''message''
       = Some (PStr ''connection refused'')"
proof -
  let ?resp = "\<lparr>status_code = 200, soup_of = Inl (Exn ''parser rejected the markup'')\<rparr>"
  have off: "session_get offline_world services_url = Inl (Exn ''connection refused'')"
    by (simp add: offline_world_def)
  have gar: "session_get garbled_world services_url = Inr ?resp \<and> status_code ?resp = 200
             \<and> soup_of ?resp = Inl (Exn ''parser rejected the markup'')"
    by (simp add: garbled_world_def)
  note a = core_operations_never_raise [of offline_world "''DLCT010001232023''" "''04-11-2026''" None
      "''CRL''" "''12345''" "''2023''" "[]"]
  note b = core_operations_never_raise [of garbled_world "''DLCT010001232023''" "''04-11-2026''" None
      "''CRL''" "''12345''" "''2023''" "[]"]
  from a off have 1: "search_by_cnr offline_world ''DLCT010001232023'' ''04-11-2026'' None
       = Inr (error_record (Exn ''connection refused''))
     \<and> search_by_case_details offline_world ''CRL'' ''12345'' ''2023'' ''04-11-2026''
       = Inr (error_record (Exn ''connection refused''))"
    by blast
  from b gar have 2: "search_by_cnr garbled_world ''DLCT010001232023'' ''04-11-2026'' None
       = Inr (error_record (Exn ''parser rejected the markup''))"
    by blast
  from a have 3: "py_get (error_record (Exn ''connection refused'')) ''message''
       = Some (PStr (str_exn (Exn ''connection refused'')))"
    by blast
  from off 1 2 3 show ?thesis by simp
qed

subsection \<open>The demo CNR\<close>

lemma demo_cnr_valid:
  assumes "upper cnr = ''DEMO123''"
  shows "cnr \<noteq> []" and "validate_cnr cnr"
proof -
  from assms show "cnr \<noteq> []" by (auto simp: upper_def)
  with assms show "validate_cnr cnr" by (simp add: validate_cnr_def)
qed

lemma api_demo:
  assumes "upper cnr = ''DEMO123''" and "req_cnr req = Some cnr"
  shows "api_search_by_cnr w req =
     (let target_date = (if req_date req = Some ''tomorrow'' then tomorrow w else today w);
          filename = ''case_result_'' @ cnr @ ''_'' @ target_date
      in case save_results w (demo_result_api cnr) filename ''json'' of
           Inl e \<Rightarrow> api_error e
         | Inr path \<Rightarrow>
             ([(''success'', PBool True),
               (''data'', PDict (demo_result_api cnr)),
               (''search_params'', PDict [(''cnr'', PStr cnr), (''date'', PStr target_date)]),
               (''demo_data'', PBool True),
               (''saved_to_file'', PStr (filename @ ''.json''))], 200))"
  using assms demo_cnr_valid [OF assms(1)]
  by (auto simp: api_search_by_cnr_def api_search_by_cnr_body_def Let_def
      split: option.splits sum.splits)

lemma demo_detail_lines:
  "map (\<lambda>(key, value). ''  '' @ title (replace_char CHR ''_'' CHR '' '' key) @ '': '' @ value)
     demo_case_details
   = [''  Case Number: DEMO/123/2024'',
      ''  Court Name: Demo District Court'',
      ''  Case Type: Civil Suit'',
      ''  Filing Date: 15-01-2024'',
      ''  Status: Pending'',
      ''  Next Hearing: 25-10-2025'',
      ''  Judge: Hon'' @ [CHR 0x27] @ ''ble Justice Demo'',
      ''  Petitioner: Demo Petitioner'',
      ''  Respondent: Demo Respondent'']"
  by code_simp

lemma demo_echo_eq:
  "echo ([''Case Information Found!'',
                 ''CNR: '' @ cnr,
                 ''Message: Demo case information retrieved successfully'',
                 nl ''Case Details:'']
                @ map (\<lambda>(key, value).
                         ''  '' @ title (replace_char CHR ''_'' CHR '' '' key) @ '': '' @ value)
                      demo_case_details
                @ [nl ''Status Indicators:'']
                @ map (\<lambda>indicator. ''  - '' @ indicator) demo_status_indicators)
   = (demo_echo cnr, Continue)"
  unfolding demo_detail_lines echo_def demo_echo_def demo_status_indicators_def by simp

lemma main_demo_eq:
  "main_demo w cnr target_date output_format =
     (case save_results w (demo_result_cli cnr) (''case_result_'' @ cnr @ ''_'' @ target_date)
             output_format of
        Inl e \<Rightarrow> (demo_echo cnr, Raise e)
      | Inr u \<Rightarrow>
          (demo_echo cnr
           @ [Saved (demo_result_cli cnr) (''case_result_'' @ cnr @ ''_'' @ target_date) output_format,
              Echo (nl (''Results saved to: output/'' @ (''case_result_'' @ cnr @ ''_'' @ target_date)
                         @ ''.'' @ output_format))],
           Return))"
  unfolding main_demo_def demo_echo_eq
  by (simp add: seq_def save_echo_def split: sum.splits)

lemma main_demo:
  assumes "upper cnr = ''DEMO123''" and "arg_cnr args = Some cnr"
  shows "main w args p =
     (let target_date =
            (if arg_today args then today w
             else if arg_tomorrow args then tomorrow w
             else if answer_date p = ''1'' then today w else tomorrow w);
          b = main_demo w cnr target_date (arg_output_format args)
      in fst b @ (case snd b of Raise e \<Rightarrow> [Echo (''Error: '' @ str_exn e)] | _ \<Rightarrow> []))"
proof -
  note v = demo_cnr_valid [OF assms(1)]
  have fl: "snd (main_demo w cnr d f) \<noteq> Continue" for d f
    by (simp add: main_demo_eq split: sum.splits)
  have sq: "seq (main_demo w cnr d f) b = main_demo w cnr d f" for d f b
    using fl [of d f] by (cases "snd (main_demo w cnr d f)") (simp_all add: seq_def)
  show ?thesis
    using assms v by (simp add: main_def main_cnr_def Let_def sq)
qed


lemma main_demo_events:
  assumes "upper cnr = ''DEMO123''" and "arg_cnr args = Some cnr"
  shows "main w args p =
     (let target_date =
            (if arg_today args then today w
             else if arg_tomorrow args then tomorrow w
             else if answer_date p = ''1'' then today w else tomorrow w);
          filename = ''case_result_'' @ cnr @ ''_'' @ target_date
      in case save_results w (demo_result_cli cnr) filename (arg_output_format args) of
           Inl e \<Rightarrow> demo_echo cnr @ [Echo (''Error: '' @ str_exn e)]
         | Inr path \<Rightarrow>
             demo_echo cnr
             @ [Saved (demo_result_cli cnr) filename (arg_output_format args),
                Echo (nl (''Results saved to: output/'' @ filename @ ''.''
                           @ arg_output_format args))])"
  unfolding main_demo [OF assms] main_demo_eq Let_def
  by (simp split: sum.splits)

lemma save_results_same:
  "write_file w' = write_file w \<Longrightarrow> save_results w' = save_results w"
  by (simp add: save_results_def fun_eq_iff)

text \<open>
  C9. Let the CNR be \<^verbatim>\<open>DEMO123\<close> in any letter case. Both front ends build the demo
  record, tagged \<^verbatim>\<open>case_found\<close>, with case number \<^verbatim>\<open>DEMO/123/2024\<close> and status
  \<^verbatim>\<open>Pending\<close>, and leave before the scraper is called: the response of the API route
  and the events of the command line are the same in any two worlds that agree on the
  clock and the file system, whatever their networks do. The API answers with the success
  envelope around the demo record, and the command line echoes the demo record and saves
  it; only a failure to write the file replaces the envelope, or the last lines, by the
  error of the write.
\<close>

theorem demo_cnr_needs_no_network:
  assumes "upper cnr = ''DEMO123''" and "req_cnr req = Some cnr" and "arg_cnr args = Some cnr"
  shows "status_is (demo_result_api cnr) ''case_found''
       \<and> status_is (demo_result_cli cnr) ''case_found''
       \<and> py_get (demo_result_api cnr) ''case_details'' = Some (str_dict demo_case_details)
       \<and> py_get (demo_result_cli cnr) ''case_details'' = Some (str_dict demo_case_details)
       \<and> py_get demo_case_details ''case_number'' = Some ''DEMO/123/2024''
       \<and> py_get demo_case_details ''status'' = Some ''Pending''
       \<and> (\<forall>w'. today w' = today w \<and> tomorrow w' = tomorrow w \<and> write_file w' = write_file w
              \<longrightarrow> api_search_by_cnr w' req = api_search_by_cnr w req
                  \<and> main w' args p = main w args p)
       \<and> api_search_by_cnr w req =
           (let target_date = (if req_date req = Some ''tomorrow'' then tomorrow w else today w);
                filename = ''case_result_'' @ cnr @ ''_'' @ target_date
            in case save_results w (demo_result_api cnr) filename ''json'' of
                 Inl e \<Rightarrow> api_error e
               | Inr path \<Rightarrow>
                   ([(''success'', PBool True),
                     (''data'', PDict (demo_result_api cnr)),
                     (''search_params'', PDict [(''cnr'', PStr cnr), (''date'', PStr target_date)]),
                     (''demo_data'', PBool True),
                     (''saved_to_file'', PStr (filename @ ''.json''))], 200))
       \<and> main w args p =
           (let target_date =
                  (if arg_today args then today w
                   else if arg_tomorrow args then tomorrow w
                   else if answer_date p = ''1'' then today w else tomorrow w);
                filename = ''case_result_'' @ cnr @ ''_'' @ target_date
            in case save_results w (demo_result_cli cnr) filename (arg_output_format args) of
                 Inl e \<Rightarrow> demo_echo cnr @ [Echo (''Error: '' @ str_exn e)]
               | Inr path \<Rightarrow>
                   demo_echo cnr
                   @ [Saved (demo_result_cli cnr) filename (arg_output_format args),
                      Echo (nl (''Results saved to: output/'' @ filename @ ''.''
                                 @ arg_output_format args))])"
proof -
  have rec: "status_is (demo_result_api cnr) ''case_found''"
    "status_is (demo_result_cli cnr) ''case_found''"
    "py_get (demo_result_api cnr) ''case_details'' = Some (str_dict demo_case_details)"
    "py_get (demo_result_cli cnr) ''case_details'' = Some (str_dict demo_case_details)"
    by (simp_all add: status_is_def demo_result_api_def demo_result_cli_def py_get_def)
  have det: "py_get demo_case_details ''case_number'' = Some ''DEMO/123/2024''"
    "py_get demo_case_details ''status'' = Some ''Pending''"
    by (simp_all add: demo_case_details_def py_get_def)
  have same: "api_search_by_cnr w' req = api_search_by_cnr w req \<and> main w' args p = main w args p"
    if "today w' = today w \<and> tomorrow w' = tomorrow w \<and> write_file w' = write_file w" for w'
  proof -
    from that have "save_results w' = save_results w"
      by (intro save_results_same) simp
    with that have eqs: "today w' = today w" "tomorrow w' = tomorrow w"
      "save_results w' = save_results w"
      by simp_all
    show ?thesis
      unfolding api_demo [OF assms(1,2)] main_demo_events [OF assms(1,3)] eqs
      by (rule conjI; rule refl)
  qed
  then have sameall: "\<forall>w'. today w' = today w \<and> tomorrow w' = tomorrow w \<and> write_file w' = write_file w
              \<longrightarrow> api_search_by_cnr w' req = api_search_by_cnr w req
                  \<and> main w' args p = main w args p"
    by blast
  note api = api_demo [OF assms(1,2), of w]
  note cli = main_demo_events [OF assms(1,3), of w p]
  show ?thesis
    apply (rule conjI, rule rec(1))
    apply (rule conjI, rule rec(2))
    apply (rule conjI, rule rec(3))
    apply (rule conjI, rule rec(4))
    apply (rule conjI, rule det(1))
    apply (rule conjI, rule det(2))
    apply (rule conjI, rule sameall)
    apply (rule conjI, rule api)
    apply (rule cli)
    done
qed


theorem demo_cnr_needs_no_network_witness:
  "upper ''DEMO123'' = ''DEMO123''
   \<and> api_search_by_cnr offline_world demo_request =
       ([(''success'', PBool True),
         (''data'', PDict (demo_result_api ''DEMO123'')),
         (''search_params'', PDict [(''cnr'', PStr ''DEMO123''), (''date'', PStr ''04-11-2026'')]),
         (''demo_data'', PBool True),
         (''saved_to_file'', PStr ''case_result_DEMO123_04-11-2026.json'')], 200)
   \<and> api_search_by_cnr (serving page_with_form) demo_request
       = api_search_by_cnr offline_world demo_request
   \<and> main (serving page_with_form) demo_args no_answers = main offline_world demo_args no_answers
   \<and> main offline_world demo_args no_answers =
       demo_echo ''DEMO123''
       @ [Saved (demo_result_cli ''DEMO123'') ''case_result_DEMO123_04-11-2026'' ''json'',
          Echo (nl ''Results saved to: output/case_result_DEMO123_04-11-2026.json'')]"
proof -
  have h1: "upper ''DEMO123'' = ''DEMO123''" by code_simp
  have h2: "req_cnr demo_request = Some ''DEMO123''" by (simp add: demo_request_def)
  have h3: "arg_cnr demo_args = Some ''DEMO123''" by (simp add: demo_args_def)
  note t = demo_cnr_needs_no_network [OF h1 h2 h3, of offline_world no_answers]
  note t6 = t [THEN conjunct2, THEN conjunct2, THEN conjunct2, THEN conjunct2, THEN conjunct2,
      THEN conjunct2]
  note indep = t6 [THEN conjunct1]
  note api = t6 [THEN conjunct2, THEN conjunct1]
  note cli = t6 [THEN conjunct2, THEN conjunct2]
  have sv: "save_results offline_world d ''case_result_DEMO123_04-11-2026'' ''json''
            = Inr ''output/case_result_DEMO123_04-11-2026.json''" for d
    by (simp add: save_results_def offline_world_def)
  have clock: "today offline_world = ''04-11-2026''" by (simp add: offline_world_def)
  have rq: "req_date demo_request = None" by (simp add: demo_request_def)
  have ar: "arg_today demo_args" "arg_output_format demo_args = ''json''"
    by (simp_all add: demo_args_def)
  have a: "api_search_by_cnr offline_world demo_request =
       ([(''success'', PBool True),
         (''data'', PDict (demo_result_api ''DEMO123'')),
         (''search_params'', PDict [(''cnr'', PStr ''DEMO123''), (''date'', PStr ''04-11-2026'')]),
         (''demo_data'', PBool True),
         (''saved_to_file'', PStr ''case_result_DEMO123_04-11-2026.json'')], 200)"
    unfolding api by (simp add: rq clock sv)
  have c: "main offline_world demo_args no_answers =
       demo_echo ''DEMO123''
       @ [Saved (demo_result_cli ''DEMO123'') ''case_result_DEMO123_04-11-2026'' ''json'',
          Echo (nl ''Results saved to: output/case_result_DEMO123_04-11-2026.json'')]"
    unfolding cli by (simp add: ar clock sv)
  have same: "today (serving page_with_form) = today offline_world
              \<and> tomorrow (serving page_with_form) = tomorrow offline_world
              \<and> write_file (serving page_with_form) = write_file offline_world"
    by (simp add: serving_def)
  from indep same have i: "api_search_by_cnr (serving page_with_form) demo_request
       = api_search_by_cnr offline_world demo_request
     \<and> main (serving page_with_form) demo_args no_answers = main offline_world demo_args no_answers"
    by blast
  from h1 a i c show ?thesis by blast
qed

end
